theory Spec2Isabelle
  imports Complex_Main
begin

section \<open>Carter navigation environment: perception and action core\<close>

text \<open>
  Shallow embedding of \<open>carter_env.py\<close>. Tensors of 32-bit floats are modelled as
  nested lists over \<^typ>\<open>real\<close>: the arithmetic is the exact arithmetic that the
  floating-point operations approximate. Exceptions raised by Python or by the tensor
  library are values of type \<open>error\<close>, returned on the left of a sum.
\<close>

datatype error = IndexError | RuntimeError

subsection \<open>Module constants\<close>

definition NUM_TP :: nat where
  "NUM_TP = 10"

definition motor_scale :: real where
  "motor_scale = 0.5"

definition joint_base :: real where
  "joint_base = 42"

definition base_width :: real where
  "base_width = 0.4132"

definition system_gain :: real where
  "system_gain = 1.25"

text \<open>The module-level goal tensor: two world-frame goal points.\<close>

definition goal :: "(real \<times> real) list" where
  "goal = [(-5, -2), (-10, -2)]"

subsection \<open>Tensors\<close>

text \<open>
  A tensor of rank at most three. \<open>torch.Tensor([])\<close> is \<open>Vector []\<close> (shape \<open>(0,)\<close>)
  and \<open>torch.Tensor([[]])\<close> is \<open>Matrix [[]]\<close> (shape \<open>(1, 0)\<close>).
\<close>

datatype tensor =
    Scalar real
  | Vector "real list"
  | Matrix "real list list"
  | Cube "real list list list"

fun dim_tensor :: "tensor \<Rightarrow> nat" where
  "dim_tensor (Scalar x) = 0"
| "dim_tensor (Vector v) = 1"
| "dim_tensor (Matrix m) = 2"
| "dim_tensor (Cube c) = 3"

text \<open>\<open>t.size(0)\<close>; a zero-dimensional tensor has no dimension 0.\<close>

fun size0 :: "tensor \<Rightarrow> error + nat" where
  "size0 (Scalar x) = Inl IndexError"
| "size0 (Vector v) = Inr (length v)"
| "size0 (Matrix m) = Inr (length m)"
| "size0 (Cube c) = Inr (length c)"

text \<open>\<open>t[i]\<close> for a non-negative index \<open>i\<close>.\<close>

fun tensor_at :: "tensor \<Rightarrow> nat \<Rightarrow> error + tensor" where
  "tensor_at (Scalar x) i = Inl IndexError"
| "tensor_at (Vector v) i = (if i < length v then Inr (Scalar (v ! i)) else Inl IndexError)"
| "tensor_at (Matrix m) i = (if i < length m then Inr (Vector (m ! i)) else Inl IndexError)"
| "tensor_at (Cube c) i = (if i < length c then Inr (Matrix (c ! i)) else Inl IndexError)"

text \<open>The elements of \<open>t[i]\<close> in row-major order, as \<open>reshape\<close> reads them.\<close>

fun flat :: "tensor \<Rightarrow> real list" where
  "flat (Scalar x) = [x]"
| "flat (Vector v) = v"
| "flat (Matrix m) = concat m"
| "flat (Cube c) = concat (map concat c)"

text \<open>\<open>t.reshape(1, 720)\<close>: the single row, or an error when \<open>t\<close> has not 720 elements.\<close>

definition reshape_1_720 :: "tensor \<Rightarrow> error + real list" where
  "reshape_1_720 t = (if length (flat t) = 720 then Inr (flat t) else Inl RuntimeError)"

text \<open>
  \<open>torch.cat((h, frame), dim=0)\<close> where \<open>frame\<close> has shape \<open>(1, 720)\<close>. A one-dimensional
  empty tensor is skipped by \<open>torch.cat\<close>; any other operand must be a matrix of width 720.
\<close>

fun cat_frame :: "tensor \<Rightarrow> real list \<Rightarrow> error + real list list" where
  "cat_frame (Scalar x) frame = Inl RuntimeError"
| "cat_frame (Vector v) frame = (if v = [] then Inr [frame] else Inl RuntimeError)"
| "cat_frame (Matrix m) frame =
     (if list_all (\<lambda>r. length r = 720) m then Inr (m @ [frame]) else Inl RuntimeError)"
| "cat_frame (Cube c) frame = Inl RuntimeError"

text \<open>\<open>torch.stack\<close> of a Python list of tensors: an empty list raises.\<close>

definition stack :: "'a list \<Rightarrow> error + 'a list" where
  "stack xs = (if xs = [] then Inl RuntimeError else Inr xs)"

text \<open>\<open>torch.stack\<close> of matrices: they must also agree in the number of rows.\<close>

definition stack_frames :: "real list list list \<Rightarrow> error + real list list list" where
  "stack_frames ms =
     (if ms = [] then Inl RuntimeError
      else if list_all (\<lambda>m. length m = length (hd ms)) ms then Inr ms
      else Inl RuntimeError)"

text \<open>A Python loop that appends one result per element and stops at the first exception.\<close>

fun map_err :: "('a \<Rightarrow> error + 'b) \<Rightarrow> 'a list \<Rightarrow> error + 'b list" where
  "map_err f [] = Inr []"
| "map_err f (x # xs) =
     (case f x of
        Inl e \<Rightarrow> Inl e
      | Inr y \<Rightarrow> (case map_err f xs of Inl e \<Rightarrow> Inl e | Inr ys \<Rightarrow> Inr (y # ys)))"

text \<open>The Python slice \<open>xs[a:b]\<close> for \<open>0 \<le> a \<le> b\<close>: out-of-range bounds are clipped.\<close>

definition slice :: "nat \<Rightarrow> nat \<Rightarrow> 'a list \<Rightarrow> 'a list" where
  "slice a b xs = take (b - a) (drop a xs)"

text \<open>\<open>torch.min\<close> raises on an empty tensor; \<open>torch.mean\<close> does not.\<close>

definition torch_min :: "real list \<Rightarrow> error + real" where
  "torch_min xs = (if xs = [] then Inl RuntimeError else Inr (min_list xs))"

definition torch_mean :: "real list \<Rightarrow> real" where
  "torch_mean xs = sum_list xs / real (length xs)"

text \<open>The assignment \<open>g[r, c] = v\<close> on a matrix.\<close>

definition set2 :: "real list list \<Rightarrow> nat \<Rightarrow> nat \<Rightarrow> real \<Rightarrow> real list list" where
  "set2 g r c v = g[r := (g ! r)[c := v]]"

subsection \<open>Differential-drive solver\<close>

text \<open>
  One pass of the loop body of \<open>differential_drive_solver\<close>: a zero vector of seven
  joint efforts whose slots 1 and 2 are then assigned.
\<close>

definition drive_row :: "real \<times> real \<Rightarrow> real list" where
  "drive_row a =
     (let vx = fst a; wf = snd a;
          action = replicate 7 (0::real);
          vx_base = motor_scale;
          pl_pr_base = joint_base;
          gain = system_gain;
          v_left = vx - (wf * base_width / 2);
          v_right = vx + (wf * base_width / 2);
          pl = gain * (v_left / vx_base) * pl_pr_base;
          pr = gain * (v_right / vx_base) * pl_pr_base
      in (action[1 := pl])[2 := pr])"

definition differential_drive_solver :: "(real \<times> real) list \<Rightarrow> error + real list list" where
  "differential_drive_solver actions = stack (map drive_row actions)"

subsection \<open>Temporal pooling of range scans\<close>

text \<open>The first loop of \<open>lidar_pooling\<close>: the frame of instance \<open>i\<close> joins its history.\<close>

definition stack_current :: "tensor \<Rightarrow> tensor \<Rightarrow> nat \<Rightarrow> error + real list list" where
  "stack_current hist scan i =
     (case size0 hist of
        Inl e \<Rightarrow> Inl e
      | Inr n \<Rightarrow>
          if n = 0 then
            (case tensor_at scan i of
               Inl e \<Rightarrow> Inl e
             | Inr s \<Rightarrow> (case reshape_1_720 s of Inl e \<Rightarrow> Inl e | Inr frame \<Rightarrow> Inr [frame]))
          else
            (case tensor_at hist i of
               Inl e \<Rightarrow> Inl e
             | Inr h \<Rightarrow>
                 (case tensor_at scan i of
                    Inl e \<Rightarrow> Inl e
                  | Inr s \<Rightarrow>
                      (case reshape_1_720 s of
                         Inl e \<Rightarrow> Inl e
                       | Inr frame \<Rightarrow> cat_frame h frame))))"

text \<open>The innermost loop over the bins \<open>i\<close> of frame \<open>n\<close>, writing rows \<open>2n\<close> and \<open>2n+1\<close>.\<close>

fun bin_loop :: "real list \<Rightarrow> nat \<Rightarrow> nat list \<Rightarrow> real list list \<Rightarrow> error + real list list" where
  "bin_loop lidar_tmp n [] lidar_avg = Inr lidar_avg"
| "bin_loop lidar_tmp n (i # is) lidar_avg =
     (case torch_min (slice (i * 9) ((i + 1) * 9) lidar_tmp) of
        Inl e \<Rightarrow> Inl e
      | Inr mn \<Rightarrow>
          bin_loop lidar_tmp n is
            (set2 (set2 lidar_avg (2 * n) i mn) (2 * n + 1) i
               (torch_mean (slice (i * 9) ((i + 1) * 9) lidar_tmp))))"

text \<open>The loop over the frames \<open>n\<close> of one instance's flattened history.\<close>

fun frame_loop :: "real list \<Rightarrow> nat list \<Rightarrow> real list list \<Rightarrow> error + real list list" where
  "frame_loop cnn_lidar_j [] lidar_avg = Inr lidar_avg"
| "frame_loop cnn_lidar_j (n # ns) lidar_avg =
     (case bin_loop (slice (n * 720) ((n + 1) * 720) cnn_lidar_j) n [0..<80] lidar_avg of
        Inl e \<Rightarrow> Inl e
      | Inr g \<Rightarrow> frame_loop cnn_lidar_j ns g)"

definition lidar_avg_of :: "real list \<Rightarrow> error + real list list" where
  "lidar_avg_of cnn_lidar_j = frame_loop cnn_lidar_j [0..<NUM_TP] (replicate 20 (replicate 80 0))"

text \<open>The last loop: flatten, repeat four times, rescale from \<open>[0, 30]\<close>.\<close>

definition lidar_avg_map :: "real list list \<Rightarrow> real list" where
  "lidar_avg_map lidar_avg =
     (let s_min = 0; s_max = 30
      in map (\<lambda>x. 2 * (x - s_min) / (s_max - s_min) + (-1))
           (concat (replicate 4 (concat lidar_avg))))"

definition lidar_pooling :: "tensor \<Rightarrow> tensor \<Rightarrow> int \<Rightarrow> error + tensor \<times> bool \<times> tensor \<times> int" where
  "lidar_pooling lidar_history_data scan_tmp pooling_tns =
     (if dim_tensor scan_tmp \<le> 1 then Inr (Vector [], False, Vector [], 0)
      else
        (case size0 scan_tmp of
           Inl e \<Rightarrow> Inl e
         | Inr num \<Rightarrow>
        (case map_err (stack_current lidar_history_data scan_tmp) [0..<num] of
           Inl e \<Rightarrow> Inl e
         | Inr tmp_list \<Rightarrow>
        (case stack_frames tmp_list of
           Inl e \<Rightarrow> Inl e
         | Inr cnn_lidar_tmp \<Rightarrow>
             if pooling_tns + 1 = int NUM_TP then
               (let cnn_lidar = map concat cnn_lidar_tmp;
                    history = map (slice 1 NUM_TP) cnn_lidar_tmp
                in (case map_err lidar_avg_of cnn_lidar of
                      Inl e \<Rightarrow> Inl e
                    | Inr avg_list \<Rightarrow>
                   (case stack avg_list of
                      Inl e \<Rightarrow> Inl e
                    | Inr lidar_avg_all \<Rightarrow>
                   (case stack (map lidar_avg_map lidar_avg_all) of
                      Inl e \<Rightarrow> Inl e
                    | Inr lidar_data_final \<Rightarrow>
                        Inr (Matrix lidar_data_final, True, Cube history, int NUM_TP - 1)))))
             else Inr (Cube cnn_lidar_tmp, False, Cube cnn_lidar_tmp, pooling_tns + 1)))))"

subsection \<open>Specification of the pooled feature\<close>

text \<open>A grid of 20 rows and 80 columns.\<close>

definition grid_shape :: "real list list \<Rightarrow> bool" where
  "grid_shape g = (length g = 20 \<and> list_all (\<lambda>r. length r = 80) g)"

text \<open>Bin \<open>i\<close> of a frame: nine consecutive samples from position \<open>9 i\<close> on.\<close>

definition bin_of :: "real list \<Rightarrow> nat \<Rightarrow> real list" where
  "bin_of frame i = take 9 (drop (9 * i) frame)"

text \<open>
  The grid the specification describes for the frames of one instance: row \<open>2n\<close> holds the
  minimum of every bin of frame \<open>n\<close>, row \<open>2n+1\<close> the mean.
\<close>

definition spec_grid :: "real list list \<Rightarrow> real list list" where
  "spec_grid frames =
     map (\<lambda>r. map (\<lambda>i. if even r then min_list (bin_of (frames ! (r div 2)) i)
                          else torch_mean (bin_of (frames ! (r div 2)) i)) [0..<80]) [0..<20]"

text \<open>Frame \<open>n\<close> of the flattened history of one instance.\<close>

definition frame_of :: "real list \<Rightarrow> nat \<Rightarrow> real list" where
  "frame_of cnn n = slice (n * 720) ((n + 1) * 720) cnn"

text \<open>
  The feature the specification describes for the ten frames of one instance: the grid of
  per-bin minima (even rows) and means (odd rows), flattened, repeated four times and
  rescaled from \<open>[0, 30]\<close> to \<open>[-1, 1]\<close> without clamping.
\<close>

definition pooled_feature :: "real list list \<Rightarrow> real list" where
  "pooled_feature frames =
     map (\<lambda>x. 2 * (x - 0) / (30 - 0) - 1) (concat (replicate 4 (concat (spec_grid frames))))"

subsection \<open>The tick-by-tick driver of the pooling buffer\<close>




subsection \<open>Range-scan preprocessing\<close>

text \<open>
  One reading of the range sensor: the point cloud \<open>.data\<close> and the range array
  \<open>.distance\<close>. The sensor's dictionary \<open>lidar.data\<close> is the list of its values in key
  order, each value being a list of readings of which the code uses the first.
\<close>

record lidar_frame =
  data :: "(real \<times> real \<times> real) list"
  distance :: "real list"

text \<open>\<open>xs[mask]\<close> with a boolean mask, which must have the length of \<open>xs\<close>.\<close>

definition mask_select :: "'a list \<Rightarrow> bool list \<Rightarrow> error + 'a list" where
  "mask_select xs keep =
     (if length keep = length xs then Inr (map fst (filter snd (zip xs keep)))
      else Inl IndexError)"

text \<open>\<open>.long()\<close>: conversion to an integer, rounding towards zero.\<close>

definition to_long :: "real \<Rightarrow> int" where
  "to_long x = (if 0 \<le> x then \<lfloor>x\<rfloor> else \<lceil>x\<rceil>)"

text \<open>
  \<open>torch.linspace(start, end, steps)\<close>. The preprocessor calls it with \<open>start = 0\<close>, an
  integer \<open>end\<close> below 970 and 720 steps; an exact value \<open>end * i / 719\<close> is then an integer
  or at least \<open>1 / 719\<close> away from one, further than the rounding of 32-bit floats moves
  it, so \<open>.long()\<close> of the computed value is \<open>.long()\<close> of the exact one.
\<close>

definition linspace :: "real \<Rightarrow> real \<Rightarrow> nat \<Rightarrow> real list" where
  "linspace start stop steps =
     map (\<lambda>i. start + (stop - start) * real i / real (steps - 1)) [0..<steps]"

text \<open>
  \<open>xs[indices]\<close> with a tensor of integer indices: a negative index counts from the end,
  an index out of range raises.
\<close>

fun index_select :: "'a list \<Rightarrow> int list \<Rightarrow> error + 'a list" where
  "index_select xs [] = Inr []"
| "index_select xs (i # is) =
     (let n = int (length xs); j = (if i < 0 then i + n else i)
      in if 0 \<le> j \<and> j < n then
           (case index_select xs is of Inl e \<Rightarrow> Inl e | Inr ys \<Rightarrow> Inr (xs ! nat j # ys))
         else Inl IndexError)"

text \<open>The body of the loop over the sensor keys in \<open>raw_lidar_process\<close>.\<close>

definition process_key :: "lidar_frame list \<Rightarrow> error + (real \<times> real \<times> real) list \<times> real list" where
  "process_key frames =
     (case frames of
        [] \<Rightarrow> Inl IndexError
      | f # _ \<Rightarrow>
          (let lidar_data = data f;
               lidar_ranges = distance f;
               z_min = - 0.02;
               z_max = 0.02;
               mask = map (\<lambda>(x, y, z). z \<ge> z_min \<and> z \<le> z_max) lidar_data
           in case mask_select lidar_data mask of
                Inl e \<Rightarrow> Inl e
              | Inr d \<Rightarrow>
             (case mask_select lidar_ranges mask of
                Inl e \<Rightarrow> Inl e
              | Inr r \<Rightarrow>
                 (let filtered_lidar_data = take 970 d;
                      filtered_lidar_ranges = take 970 r;
                      num_samples = 720;
                      indices = map to_long
                        (linspace 0 (real (length filtered_lidar_data) - 1) num_samples)
                  in case index_select filtered_lidar_data indices of
                       Inl e \<Rightarrow> Inl e
                     | Inr fd \<Rightarrow>
                    (case index_select filtered_lidar_ranges indices of
                       Inl e \<Rightarrow> Inl e
                     | Inr fr \<Rightarrow> Inr (fd, fr))))))"

definition raw_lidar_process :: "lidar_frame list list \<Rightarrow> error + tensor \<times> tensor" where
  "raw_lidar_process lidar =
     (case lidar of
        [] \<Rightarrow> Inl IndexError
      | first_key # _ \<Rightarrow>
          (case first_key of
             [] \<Rightarrow> Inl IndexError
           | f0 # _ \<Rightarrow>
               if length (data f0) \<noteq> 0 then
                 (case map_err process_key lidar of
                    Inl e \<Rightarrow> Inl e
                  | Inr results \<Rightarrow>
                 (case stack (map fst results) of
                    Inl e \<Rightarrow> Inl e
                  | Inr final_lidar_data \<Rightarrow>
                 (case stack (map snd results) of
                    Inl e \<Rightarrow> Inl e
                  | Inr final_lidar_ranges \<Rightarrow>
                      Inr (Cube (map (map (\<lambda>(x, y, z). [x, y, z])) final_lidar_data),
                           Matrix final_lidar_ranges))))
               else Inr (Vector [], Vector [])))"

text \<open>The horizontal band the preprocessor keeps.\<close>

definition in_band :: "real \<times> real \<times> real \<Rightarrow> bool" where
  "in_band p = (case p of (x, y, z) \<Rightarrow> z \<ge> - 0.02 \<and> z \<le> 0.02)"

text \<open>A reading the preprocessor accepts: matching lengths and a point inside the band.\<close>

definition good_key :: "lidar_frame list \<Rightarrow> bool" where
  "good_key frames =
     (case frames of [] \<Rightarrow> False
      | f # _ \<Rightarrow> length (distance f) = length (data f) \<and> filter in_band (data f) \<noteq> [])"

subsection \<open>Heading angle and goal projection\<close>

text \<open>
  \<open>torch.atan2(y, x)\<close>: the angle of the point \<open>(x, y)\<close>, in \<open>(-\<pi>, \<pi>]\<close>, and 0 at the
  origin.
\<close>

definition atan2 :: "real \<Rightarrow> real \<Rightarrow> real" where
  "atan2 y x =
     (if 0 < x then arctan (y / x)
      else if x < 0 then (if 0 \<le> y then arctan (y / x) + pi else arctan (y / x) - pi)
      else if 0 < y then pi / 2
      else if y < 0 then - (pi / 2)
      else 0)"

text \<open>The operator \<open>%\<close> on floats: the remainder has the sign of the divisor.\<close>

definition remainder :: "real \<Rightarrow> real \<Rightarrow> real" where
  "remainder a b = a - b * of_int \<lfloor>a / b\<rfloor>"

type_synonym quat = "real \<times> real \<times> real \<times> real"

text \<open>\<open>quaternion_to_angle\<close> on one row \<open>(w, x, y, z)\<close> of the batch, and on the batch.\<close>

definition quaternion_angle :: "quat \<Rightarrow> real" where
  "quaternion_angle q =
     (case q of (w, x, y, z) \<Rightarrow>
        (let r11 = 1 - 2 * (y\<^sup>2 + z\<^sup>2);
             r21 = 2 * (x * y - w * z);
             angles = atan2 r21 r11
         in remainder (angles + pi) (2 * pi) - pi))"

definition quaternion_to_angle :: "quat list \<Rightarrow> real list" where
  "quaternion_to_angle quat = map quaternion_angle quat"

definition goal_rotate :: "real \<Rightarrow> real \<times> real \<Rightarrow> real \<times> real" where
  "goal_rotate angle relative_goal =
     (let x_new = fst relative_goal * cos angle - snd relative_goal * sin angle;
          y_new = fst relative_goal * sin angle + snd relative_goal * cos angle
      in (x_new, y_new))"

text \<open>
  The difference of two batches of points, with the broadcasting of the tensor library:
  the batches have the same number of rows, or one of them has a single row.
\<close>

definition broadcast_sub :: "(real \<times> real) list \<Rightarrow> (real \<times> real) list \<Rightarrow> error + (real \<times> real) list" where
  "broadcast_sub a b =
     (if length a = length b then Inr (map2 (\<lambda>g p. (fst g - fst p, snd g - snd p)) a b)
      else if length b = 1 then Inr (map (\<lambda>g. (fst g - fst (hd b), snd g - snd (hd b))) a)
      else if length a = 1 then Inr (map (\<lambda>p. (fst (hd a) - fst p, snd (hd a) - snd p)) b)
      else Inl RuntimeError)"

text \<open>The magnitude \<open>torch.sqrt(g[0] * g[0] + g[1] * g[1])\<close>.\<close>

definition magnitude :: "real \<times> real \<Rightarrow> real" where
  "magnitude g = sqrt (fst g * fst g + snd g * snd g)"

text \<open>The two steps of the loop body of \<open>subgoal_get\<close>: the cut at the lookahead radius and
  the rescaling from \<open>[g_min, g_max]\<close>.\<close>

definition lookahead_cut :: "real \<Rightarrow> real \<times> real \<Rightarrow> real \<times> real" where
  "lookahead_cut lookahead goal_in_robot_tmp =
     (if magnitude goal_in_robot_tmp > lookahead then
        (let scale_factor = lookahead / magnitude goal_in_robot_tmp
         in (fst goal_in_robot_tmp * scale_factor, snd goal_in_robot_tmp * scale_factor))
      else goal_in_robot_tmp)"

definition goal_rescale :: "real \<times> real \<Rightarrow> real \<times> real" where
  "goal_rescale s =
     (let g_min = - 2; g_max = 2
      in (2 * (fst s - g_min) / (g_max - g_min) + (- 1),
          2 * (snd s - g_min) / (g_max - g_min) + (- 1)))"

definition subgoal_get :: "(real \<times> real) list \<Rightarrow> real \<Rightarrow> error + (real \<times> real) list" where
  "subgoal_get goal_in lookahead =
     stack (map (\<lambda>g. goal_rescale (lookahead_cut lookahead g)) goal_in)"

text \<open>
  The goal part of \<open>_get_observations\<close>: the relative goal of every instance, rotated by
  the angle of the instance's root quaternion, then cut and rescaled.
\<close>

definition rotate_rows :: "real list \<Rightarrow> (real \<times> real) list \<Rightarrow> error + (real \<times> real) list" where
  "rotate_rows angle_x_axis relative_goal =
     map_err (\<lambda>i. if i < length angle_x_axis
                   then Inr (goal_rotate (angle_x_axis ! i) (relative_goal ! i))
                   else Inl IndexError)
       [0..<length relative_goal]"

definition subgoal_of :: "quat list \<Rightarrow> (real \<times> real \<times> real) list \<Rightarrow> error + (real \<times> real) list" where
  "subgoal_of root_quat_w root_pos_w =
     (let robot_to_world_quat = root_quat_w;
          robot_to_world_pos = map (\<lambda>(x, y, z). (x, y)) root_pos_w
      in case broadcast_sub goal robot_to_world_pos of
           Inl e \<Rightarrow> Inl e
         | Inr relative_goal \<Rightarrow>
             (let angle_x_axis = quaternion_to_angle robot_to_world_quat
              in case rotate_rows angle_x_axis relative_goal of
                   Inl e \<Rightarrow> Inl e
                 | Inr goal_in_robot \<Rightarrow> subgoal_get goal_in_robot 2.0))"

subsection \<open>The environment: observation assembly and reset\<close>

text \<open>
  The attributes of \<open>CarterEnv\<close> that the methods below read or assign. The simulator,
  the robot articulation and the base class \<open>DirectRLEnv\<close> are outside: their state is a
  value of an arbitrary type \<open>'sim\<close> that only the functions passed in for them change.
\<close>

record carter_env =
  lidar_history_data :: tensor
  pooling_tns :: int
  num_envs :: nat
  joint_pos :: "real list list"
  joint_vel :: "real list list"

text \<open>The state \<open>__init__\<close> builds for the two pooling attributes.\<close>

definition init_env :: "nat \<Rightarrow> real list list \<Rightarrow> real list list \<Rightarrow> carter_env" where
  "init_env n jp jv =
     \<lparr>lidar_history_data = Matrix [[]], pooling_tns = 0, num_envs = n, joint_pos = jp, joint_vel = jv\<rparr>"

text \<open>
  The marker block of \<open>_get_observations\<close>. The marker positions go to the external
  visualiser and are not part of the model; what is kept is when the block raises: both
  calls of \<open>transform_to_robot\<close> index a rotation and a translation for every instance of
  the point cloud, the first time in tensors of two rows, and \<open>quat_to_rot_matrix\<close> stacks
  one matrix per root quaternion.
\<close>

definition visualize_lidar :: "tensor \<Rightarrow> quat list \<Rightarrow> (real \<times> real \<times> real) list \<Rightarrow> error + unit" where
  "visualize_lidar lidar_data root_quat_w root_pos_w =
     (case lidar_data of
        Cube pts \<Rightarrow>
          if pts \<noteq> [] \<and> length (hd pts) \<ge> 300 then
            (if length pts > 2 then Inl IndexError
             else if root_quat_w = [] then Inl RuntimeError
             else if length pts \<le> length root_quat_w \<and> length pts \<le> length root_pos_w
             then Inr () else Inl IndexError)
          else Inr ()
      | _ \<Rightarrow> Inr ())"

text \<open>\<open>goal_with_z.reshape(self.num_envs, 3)\<close> for the goal marker.\<close>

definition visualize_goal :: "nat \<Rightarrow> error + unit" where
  "visualize_goal n = (if n * 3 = length goal * 3 then Inr () else Inl RuntimeError)"

text \<open>
  \<open>torch.cat((ped_pos, lidar_data_final, subgoal), dim=1)\<close>: the operands are matrices with
  the same number of rows; a one-dimensional empty tensor is skipped.
\<close>

definition cat_obs :: "real list list \<Rightarrow> tensor \<Rightarrow> (real \<times> real) list \<Rightarrow> error + real list list" where
  "cat_obs ped_pos lidar_data_final subgoal =
     (case lidar_data_final of
        Matrix m \<Rightarrow>
          if length m = length ped_pos \<and> length subgoal = length ped_pos then
            Inr (map (\<lambda>i. ped_pos ! i @ m ! i @ [fst (subgoal ! i), snd (subgoal ! i)])
                   [0..<length ped_pos])
          else Inl RuntimeError
      | Vector v \<Rightarrow>
          if v = [] \<and> length subgoal = length ped_pos then
            Inr (map (\<lambda>i. ped_pos ! i @ [fst (subgoal ! i), snd (subgoal ! i)])
                   [0..<length ped_pos])
          else Inl RuntimeError
      | _ \<Rightarrow> Inl RuntimeError)"

definition zeros :: "nat \<Rightarrow> nat \<Rightarrow> real list list" where
  "zeros n m = replicate n (replicate m 0)"

definition get_observations ::
  "carter_env \<Rightarrow> lidar_frame list list \<Rightarrow> quat list \<Rightarrow> (real \<times> real \<times> real) list
     \<Rightarrow> error + real list list \<times> carter_env" where
  "get_observations env lidar root_quat_w root_pos_w =
     (case raw_lidar_process lidar of
        Inl e \<Rightarrow> Inl e
      | Inr (lidar_data, lidar_ranges) \<Rightarrow>
     (case lidar_pooling (lidar_history_data env) lidar_ranges (pooling_tns env) of
        Inl e \<Rightarrow> Inl e
      | Inr (lidar_data_final, pooling_flag, history, tns) \<Rightarrow>
     (let env' = env\<lparr>lidar_history_data := history, pooling_tns := tns\<rparr>
      in case visualize_lidar lidar_data root_quat_w root_pos_w of
           Inl e \<Rightarrow> Inl e
         | Inr _ \<Rightarrow>
        (let ped_pos = zeros (num_envs env) 12800
         in case subgoal_of root_quat_w root_pos_w of
              Inl e \<Rightarrow> Inl e
            | Inr subgoal \<Rightarrow>
           (case visualize_goal (num_envs env) of
              Inl e \<Rightarrow> Inl e
            | Inr _ \<Rightarrow>
                if pooling_flag then
                  (case cat_obs ped_pos lidar_data_final subgoal of
                     Inl e \<Rightarrow> Inl e
                   | Inr obs \<Rightarrow> Inr (obs, env'))
                else Inr (zeros (num_envs env) 19202, env'))))))"

text \<open>\<open>xs[env_ids]\<close> and \<open>xs[env_ids] = rows\<close> on the rows of a matrix.\<close>

definition gather :: "'a list \<Rightarrow> nat list \<Rightarrow> error + 'a list" where
  "gather xs ids = map_err (\<lambda>i. if i < length xs then Inr (xs ! i) else Inl IndexError) ids"

definition scatter :: "'a list \<Rightarrow> nat list \<Rightarrow> 'a list \<Rightarrow> error + 'a list" where
  "scatter xs ids rows =
     (if list_all (\<lambda>i. i < length xs) ids \<and> length rows = length ids
      then Inr (fold (\<lambda>(i, r) ys. ys[i := r]) (zip ids rows) xs)
      else Inl IndexError)"

text \<open>\<open>joint_pos[:, left_dof_idx] += noise\<close> on row \<open>k\<close> of the gathered rows.\<close>

definition add_noise :: "nat list \<Rightarrow> real list \<Rightarrow> real list \<Rightarrow> error + real list" where
  "add_noise left_dof_idx noise_row row =
     (if list_all (\<lambda>j. j < length row) left_dof_idx \<and> length noise_row = length left_dof_idx
      then Inr (fold (\<lambda>(j, v) r. r[j := r ! j + v]) (zip left_dof_idx noise_row) row)
      else Inl IndexError)"

text \<open>
  \<open>_reset_idx\<close>. The call of the base class and the writes to the simulator act on the
  outside state; \<open>sample_uniform\<close> is the matrix \<open>noise\<close> of the values it drew. Of the
  attributes of the environment only \<open>joint_pos\<close> and \<open>joint_vel\<close> are assigned.
\<close>

definition reset_idx ::
  "(nat list \<Rightarrow> 'sim \<Rightarrow> 'sim) \<Rightarrow> (nat list \<Rightarrow> real list list \<Rightarrow> real list list \<Rightarrow> 'sim \<Rightarrow> 'sim)
     \<Rightarrow> nat list \<Rightarrow> real list list \<Rightarrow> real list list \<Rightarrow> real list list
     \<Rightarrow> nat list option \<Rightarrow> carter_env \<times> 'sim \<Rightarrow> error + carter_env \<times> 'sim" where
  "reset_idx super_reset_idx write_to_sim left_dof_idx default_joint_pos default_joint_vel noise
       env_ids_opt st =
     (let env = fst st;
          env_ids = (case env_ids_opt of None \<Rightarrow> [0..<num_envs env] | Some ids \<Rightarrow> ids);
          sim1 = super_reset_idx env_ids (snd st)
      in case gather default_joint_pos env_ids of
           Inl e \<Rightarrow> Inl e
         | Inr rows \<Rightarrow>
        (case map_err (\<lambda>k. if k < length noise then add_noise left_dof_idx (noise ! k) (rows ! k)
                            else Inl RuntimeError) [0..<length rows] of
           Inl e \<Rightarrow> Inl e
         | Inr new_joint_pos \<Rightarrow>
        (case gather default_joint_vel env_ids of
           Inl e \<Rightarrow> Inl e
         | Inr new_joint_vel \<Rightarrow>
        (case scatter (joint_pos env) env_ids new_joint_pos of
           Inl e \<Rightarrow> Inl e
         | Inr jp \<Rightarrow>
        (case scatter (joint_vel env) env_ids new_joint_vel of
           Inl e \<Rightarrow> Inl e
         | Inr jv \<Rightarrow>
             Inr (env\<lparr>joint_pos := jp, joint_vel := jv\<rparr>,
                  write_to_sim env_ids new_joint_pos new_joint_vel sim1))))))"


section \<open>Properties\<close>

subsection \<open>The pooling reduction\<close>

lemma grid_shape_nth: "grid_shape g \<Longrightarrow> r < 20 \<Longrightarrow> length (g ! r) = 80"
  by (simp add: grid_shape_def list_all_length)

lemma grid_shape_set2: "grid_shape g \<Longrightarrow> grid_shape (set2 g r c v)"
  by (cases "r < length g") (auto simp: grid_shape_def set2_def list_all_length nth_list_update)

lemma set2_nth:
  "grid_shape g \<Longrightarrow> r' < 20 \<Longrightarrow> c' < 80 \<Longrightarrow>
   set2 g r c v ! r' ! c' = (if r' = r \<and> c' = c then v else g ! r' ! c')"
  by (cases "r < length g") (auto simp: grid_shape_def set2_def list_all_length nth_list_update)

lemma map_err_Inr:
  "(\<And>x. x \<in> set xs \<Longrightarrow> f x = Inr (g x)) \<Longrightarrow> map_err f xs = Inr (map g xs)"
  by (induction xs) auto

lemma bin_loop_result:
  assumes "grid_shape g"
    and "\<And>i. i \<in> set is \<Longrightarrow> slice (i * 9) ((i + 1) * 9) tmp \<noteq> []"
  shows "\<exists>g'. bin_loop tmp n is g = Inr g' \<and> grid_shape g' \<and>
           (\<forall>r<20. \<forall>c<80. g' ! r ! c =
              (if c \<in> set is \<and> r = 2 * n then min_list (slice (c * 9) ((c + 1) * 9) tmp)
               else if c \<in> set is \<and> r = 2 * n + 1 then torch_mean (slice (c * 9) ((c + 1) * 9) tmp)
               else g ! r ! c))"
  using assms
proof (induction "is" arbitrary: g)
  case Nil
  then show ?case by simp
next
  case (Cons i "is")
  let ?b = "slice (i * 9) ((i + 1) * 9) tmp"
  let ?g1 = "set2 (set2 g (2 * n) i (min_list ?b)) (2 * n + 1) i (torch_mean ?b)"
  have ne: "?b \<noteq> []" using Cons.prems(2) by simp
  have sh1: "grid_shape ?g1" using Cons.prems(1) by (simp add: grid_shape_set2)
  from Cons.IH [OF sh1] Cons.prems(2)
  obtain g' where g': "bin_loop tmp n is ?g1 = Inr g'" "grid_shape g'"
    and nth: "\<forall>r<20. \<forall>c<80. g' ! r ! c =
              (if c \<in> set is \<and> r = 2 * n then min_list (slice (c * 9) ((c + 1) * 9) tmp)
               else if c \<in> set is \<and> r = 2 * n + 1 then torch_mean (slice (c * 9) ((c + 1) * 9) tmp)
               else ?g1 ! r ! c)"
    by auto
  have step: "bin_loop tmp n (i # is) g = Inr g'"
    using ne g'(1) by (simp add: torch_min_def)
  have g1nth: "\<And>r c. r < 20 \<Longrightarrow> c < 80 \<Longrightarrow> ?g1 ! r ! c =
      (if r = 2 * n + 1 \<and> c = i then torch_mean ?b
       else if r = 2 * n \<and> c = i then min_list ?b else g ! r ! c)"
    using Cons.prems(1) by (simp add: set2_nth grid_shape_set2)
  show ?case
    apply (rule exI [of _ g'])
    using step g'(2) nth g1nth by auto
qed

lemma slice_bin: "slice (i * 9) ((i + 1) * 9) xs = bin_of xs i"
  by (simp add: slice_def bin_of_def mult.commute)

lemma slice_bin': "slice (i * 9) (9 + i * 9) xs = bin_of xs i"
  by (simp add: slice_def bin_of_def mult.commute)

lemma slice_frame': "slice (n * 720) (720 + n * 720) cnn = frame_of cnn n"
  by (simp add: frame_of_def add.commute)

lemma bin_loop_all:
  assumes "grid_shape g"
    and "\<And>i. i < 80 \<Longrightarrow> bin_of tmp i \<noteq> []"
  shows "\<exists>g'. bin_loop tmp n [0..<80] g = Inr g' \<and> grid_shape g' \<and>
           (\<forall>r<20. \<forall>c<80. g' ! r ! c =
              (if r = 2 * n then min_list (bin_of tmp c)
               else if r = 2 * n + 1 then torch_mean (bin_of tmp c)
               else g ! r ! c))"
proof -
  have "\<exists>g'. bin_loop tmp n [0..<80] g = Inr g' \<and> grid_shape g' \<and>
           (\<forall>r<20. \<forall>c<80. g' ! r ! c =
              (if c \<in> set [0..<80] \<and> r = 2 * n then min_list (slice (c * 9) ((c + 1) * 9) tmp)
               else if c \<in> set [0..<80] \<and> r = 2 * n + 1 then torch_mean (slice (c * 9) ((c + 1) * 9) tmp)
               else g ! r ! c))"
  proof (rule bin_loop_result [OF assms(1)])
    fix i assume "i \<in> set [0..<80]"
    then have "bin_of tmp i \<noteq> []" using assms(2) by simp
    then show "slice (i * 9) ((i + 1) * 9) tmp \<noteq> []" unfolding slice_bin .
  qed
  then obtain g' where "bin_loop tmp n [0..<80] g = Inr g'" "grid_shape g'"
    and "\<forall>r<20. \<forall>c<80. g' ! r ! c =
              (if c \<in> set [0..<80] \<and> r = 2 * n then min_list (bin_of tmp c)
               else if c \<in> set [0..<80] \<and> r = 2 * n + 1 then torch_mean (bin_of tmp c)
               else g ! r ! c)"
    unfolding slice_bin by blast
  then show ?thesis by (intro exI [of _ g']) auto
qed

lemma frame_loop_result:
  assumes "grid_shape g"
    and "\<And>n i. n \<in> set ns \<Longrightarrow> i < 80 \<Longrightarrow> bin_of (frame_of cnn n) i \<noteq> []"
  shows "\<exists>g'. frame_loop cnn ns g = Inr g' \<and> grid_shape g' \<and>
           (\<forall>r<20. \<forall>c<80. g' ! r ! c =
              (if r div 2 \<in> set ns then
                 (if even r then min_list (bin_of (frame_of cnn (r div 2)) c)
                  else torch_mean (bin_of (frame_of cnn (r div 2)) c))
               else g ! r ! c))"
  using assms
proof (induction ns arbitrary: g)
  case Nil
  then show ?case by simp
next
  case (Cons n ns)
  have "\<And>i. i < 80 \<Longrightarrow> bin_of (frame_of cnn n) i \<noteq> []"
    using Cons.prems(2) by simp
  from bin_loop_all [OF Cons.prems(1) this, where n = n]
  obtain g1 where g1: "bin_loop (frame_of cnn n) n [0..<80] g = Inr g1" "grid_shape g1"
    and nth1: "\<forall>r<20. \<forall>c<80. g1 ! r ! c =
              (if r = 2 * n then min_list (bin_of (frame_of cnn n) c)
               else if r = 2 * n + 1 then torch_mean (bin_of (frame_of cnn n) c)
               else g ! r ! c)"
    by blast
  have "\<And>m i. m \<in> set ns \<Longrightarrow> i < 80 \<Longrightarrow> bin_of (frame_of cnn m) i \<noteq> []"
    using Cons.prems(2) by simp
  from Cons.IH [OF g1(2) this]
  obtain g' where g': "frame_loop cnn ns g1 = Inr g'" "grid_shape g'"
    and nth: "\<forall>r<20. \<forall>c<80. g' ! r ! c =
              (if r div 2 \<in> set ns then
                 (if even r then min_list (bin_of (frame_of cnn (r div 2)) c)
                  else torch_mean (bin_of (frame_of cnn (r div 2)) c))
               else g1 ! r ! c)"
    by blast
  have step: "frame_loop cnn (n # ns) g = Inr g'"
    using g1(1) g'(1) by (simp add: slice_frame')
  have "g' ! r ! c =
              (if r div 2 \<in> set (n # ns) then
                 (if even r then min_list (bin_of (frame_of cnn (r div 2)) c)
                  else torch_mean (bin_of (frame_of cnn (r div 2)) c))
               else g ! r ! c)" if rc: "r < 20" "c < 80" for r c
  proof (cases "r div 2 \<in> set ns")
    case True
    then show ?thesis using nth rc by simp
  next
    case False
    then have eq1: "g' ! r ! c = g1 ! r ! c" using nth rc by simp
    show ?thesis
    proof (cases "r div 2 = n")
      case True
      then have "r = 2 * n \<and> even r \<or> r = 2 * n + 1 \<and> odd r" by presburger
      then show ?thesis using eq1 nth1 rc True by auto
    next
      case ne: False
      then have "r \<noteq> 2 * n" "r \<noteq> 2 * n + 1" by presburger+
      then show ?thesis using eq1 nth1 rc ne False by simp
    qed
  qed
  then show ?case using step g'(2) by blast
qed

lemma slice_concat_frames:
  "n < length frames \<Longrightarrow> list_all (\<lambda>f. length f = w) frames \<Longrightarrow>
   slice (n * w) ((n + 1) * w) (concat frames) = frames ! n"
proof (induction frames arbitrary: n)
  case Nil
  then show ?case by simp
next
  case (Cons f fs)
  show ?case
  proof (cases n)
    case 0
    then show ?thesis using Cons.prems by (simp add: slice_def)
  next
    case (Suc m)
    then have "slice (m * w) ((m + 1) * w) (concat fs) = fs ! m"
      using Cons by simp
    then show ?thesis using Suc Cons.prems by (simp add: slice_def)
  qed
qed

lemma grid_shape_zeros: "grid_shape (replicate 20 (replicate 80 0))"
  by (simp add: grid_shape_def list_all_length)

lemma bin_of_nonempty: "length f = 720 \<Longrightarrow> i < 80 \<Longrightarrow> bin_of f i \<noteq> []"
  by (simp add: bin_of_def)

lemma lidar_avg_of_spec:
  assumes "length frames = 10" and "list_all (\<lambda>f. length f = 720) frames"
  shows "lidar_avg_of (concat frames) = Inr (spec_grid frames)"
proof -
  have sl: "frame_of (concat frames) n = frames ! n" if "n < 10" for n
    using slice_concat_frames [of n frames 720] assms that by (simp add: frame_of_def)
  have len: "length (frames ! n) = 720" if "n < 10" for n
    using assms that by (simp add: list_all_length)
  have "\<And>n i. n \<in> set [0..<NUM_TP] \<Longrightarrow> i < 80 \<Longrightarrow>
          bin_of (frame_of (concat frames) n) i \<noteq> []"
    by (simp add: NUM_TP_def sl len bin_of_nonempty)
  from frame_loop_result [OF grid_shape_zeros this]
  obtain g' where g': "frame_loop (concat frames) [0..<NUM_TP] (replicate 20 (replicate 80 0)) = Inr g'"
    "grid_shape g'"
    and nth0: "\<forall>r<20. \<forall>c<80. g' ! r ! c =
              (if r div 2 \<in> set [0..<NUM_TP] then
                 (if even r then min_list (bin_of (frame_of (concat frames) (r div 2)) c)
                  else torch_mean (bin_of (frame_of (concat frames) (r div 2)) c))
               else replicate 20 (replicate 80 0) ! r ! c)"
    by blast
  have nth: "g' ! r ! c =
                 (if even r then min_list (bin_of (frames ! (r div 2)) c)
                  else torch_mean (bin_of (frames ! (r div 2)) c))" if "r < 20" "c < 80" for r c
  proof -
    have "r div 2 < 10" using that by simp
    then show ?thesis using nth0 that by (simp add: NUM_TP_def sl)
  qed
  have "g' = spec_grid frames"
  proof (rule nth_equalityI)
    show "length g' = length (spec_grid frames)"
      using g'(2) by (simp add: grid_shape_def spec_grid_def)
  next
    fix r assume "r < length g'"
    then have r: "r < 20" using g'(2) by (simp add: grid_shape_def)
    show "g' ! r = spec_grid frames ! r"
    proof (rule nth_equalityI)
      show "length (g' ! r) = length (spec_grid frames ! r)"
        using r g'(2) by (simp add: grid_shape_nth spec_grid_def)
    next
      fix c assume "c < length (g' ! r)"
      then have "c < 80" using r g'(2) by (simp add: grid_shape_nth)
      then show "g' ! r ! c = spec_grid frames ! r ! c"
        using r nth by (simp add: spec_grid_def)
    qed
  qed
  then show ?thesis using g'(1) by (simp add: lidar_avg_of_def)
qed

lemma map_err_map_Inr:
  "(\<And>x. x \<in> set xs \<Longrightarrow> f (h x) = Inr (g x)) \<Longrightarrow> map_err f (map h xs) = Inr (map g xs)"
  by (induction xs) auto

lemma nth_concat_replicate:
  "p < k * length xs \<Longrightarrow> concat (replicate k xs) ! p = xs ! (p mod length xs)"
proof (induction k arbitrary: p)
  case 0
  then show ?case by simp
next
  case (Suc k)
  show ?case
  proof (cases "p < length xs")
    case True
    then show ?thesis by (simp add: nth_append)
  next
    case False
    then have "p - length xs < k * length xs" using Suc.prems by simp
    from Suc.IH [OF this] False show ?thesis
      by (simp add: nth_append le_mod_geq)
  qed
qed

lemma length_spec_grid: "length (spec_grid frames) = 20"
  by (simp add: spec_grid_def)

lemma length_concat_spec_grid: "length (concat (spec_grid frames)) = 1600"
  by (simp add: spec_grid_def length_concat comp_def sum_list_triv)

lemma stack_current_full:
  assumes "i < length rows" "length hs = length rows"
    and "list_all (\<lambda>f. length f = 720) (hs ! i)" "length (rows ! i) = 720"
  shows "stack_current (Cube hs) (Matrix rows) i = Inr (hs ! i @ [rows ! i])"
  using assms by (auto simp: stack_current_def reshape_1_720_def)

lemma slice_keep_last:
  "length h = 9 \<Longrightarrow> slice (Suc 0) NUM_TP (h @ [r]) = tl h @ [r]"
  by (cases h) (simp_all add: slice_def NUM_TP_def)

lemma lidar_pooling_full:
  assumes "rows \<noteq> []" and "length hs = length rows"
    and "list_all (\<lambda>h. length h = 9 \<and> list_all (\<lambda>f. length f = 720) h) hs"
    and "list_all (\<lambda>r. length r = 720) rows"
  shows "lidar_pooling (Cube hs) (Matrix rows) 9 =
           Inr (Matrix (map (\<lambda>j. lidar_avg_map (spec_grid (hs ! j @ [rows ! j]))) [0..<length rows]),
                True,
                Cube (map (\<lambda>j. tl (hs ! j) @ [rows ! j]) [0..<length rows]),
                9)"
proof -
  let ?N = "length rows"
  let ?tmp = "map (\<lambda>j. hs ! j @ [rows ! j]) [0..<?N]"
  have h9: "length (hs ! j) = 9" "list_all (\<lambda>f. length f = 720) (hs ! j)" if "j < ?N" for j
    using assms(2,3) that by (simp_all add: list_all_length)
  have r720: "length (rows ! j) = 720" if "j < ?N" for j
    using assms(4) that by (simp add: list_all_length)
  have m1: "map_err (stack_current (Cube hs) (Matrix rows)) [0..<?N] = Inr ?tmp"
    by (rule map_err_Inr) (simp add: stack_current_full assms(2) h9 r720)
  have ne: "?tmp \<noteq> []" using assms(1) by simp
  have hd_len: "length (hd ?tmp) = 10"
    using assms(1) h9(1) [of 0] by (simp add: hd_map upt_conv_Cons)
  have m2: "stack_frames ?tmp = Inr ?tmp"
    using ne hd_len h9(1) unfolding stack_frames_def
    by (simp add: list_all_iff del: upt_eq_Nil_conv)
  have m3: "map_err lidar_avg_of (map concat ?tmp) = Inr (map spec_grid ?tmp)"
  proof (rule map_err_map_Inr)
    fix fr assume "fr \<in> set ?tmp"
    then obtain j where j: "j < ?N" "fr = hs ! j @ [rows ! j]" by auto
    show "lidar_avg_of (concat fr) = Inr (spec_grid fr)"
      using j h9 [OF j(1)] r720 [OF j(1)] by (intro lidar_avg_of_spec) simp_all
  qed
  have m4: "map (slice 1 NUM_TP) ?tmp = map (\<lambda>j. tl (hs ! j) @ [rows ! j]) [0..<?N]"
    by (simp add: slice_keep_last h9)
  have cond: "(9::int) + 1 = int NUM_TP" and last: "int NUM_TP - 1 = 9"
    by (simp_all add: NUM_TP_def)
  have m5: "map lidar_avg_map (map spec_grid ?tmp) =
              map (\<lambda>j. lidar_avg_map (spec_grid (hs ! j @ [rows ! j]))) [0..<?N]"
    by (simp add: comp_def)
  have s1: "stack (map spec_grid ?tmp) = Inr (map spec_grid ?tmp)"
    using assms(1) by (simp add: stack_def)
  have s2: "stack (map (\<lambda>j. lidar_avg_map (spec_grid (hs ! j @ [rows ! j]))) [0..<?N]) =
              Inr (map (\<lambda>j. lidar_avg_map (spec_grid (hs ! j @ [rows ! j]))) [0..<?N])"
    using assms(1) by (simp add: stack_def)
  show ?thesis
    unfolding lidar_pooling_def
    by (simp only: dim_tensor.simps size0.simps m1 m2 m3 m4 m5 s1 s2 Let_def sum.case
        cond last if_True) simp
qed

lemma lidar_avg_map_spec: "lidar_avg_map (spec_grid frames) = pooled_feature frames"
  by (simp add: lidar_avg_map_def pooled_feature_def)

lemma nth_concat_uniform:
  "r < length g \<Longrightarrow> list_all (\<lambda>row. length row = w) g \<Longrightarrow> c < w \<Longrightarrow>
   concat g ! (r * w + c) = g ! r ! c"
proof (induction g arbitrary: r)
  case Nil
  then show ?case by simp
next
  case (Cons a g)
  then show ?case by (cases r) (simp_all add: nth_append)
qed

lemma spec_grid_rows: "list_all (\<lambda>row. length row = 80) (spec_grid frames)"
  by (simp add: spec_grid_def list_all_iff)

lemma spec_grid_even:
  "n < 10 \<Longrightarrow> i < 80 \<Longrightarrow> spec_grid frames ! (2 * n) ! i = min_list (bin_of (frames ! n) i)"
  by (simp add: spec_grid_def)

lemma spec_grid_odd:
  "n < 10 \<Longrightarrow> i < 80 \<Longrightarrow> spec_grid frames ! (2 * n + 1) ! i = torch_mean (bin_of (frames ! n) i)"
  by (simp add: spec_grid_def)

lemma length_concat_replicate: "length (concat (replicate k xs)) = k * length xs"
  by (induction k) simp_all

lemma length_pooled_feature: "length (pooled_feature frames) = 6400"
  by (simp add: pooled_feature_def length_concat_replicate length_concat_spec_grid)

lemma pooled_feature_nth:
  assumes "p < 6400"
  shows "pooled_feature frames ! p = 2 * (concat (spec_grid frames) ! (p mod 1600) - 0) / (30 - 0) - 1"
proof -
  have "p < 4 * length (concat (spec_grid frames))"
    using assms by (simp add: length_concat_spec_grid)
  from nth_concat_replicate [OF this] have
    "concat (replicate 4 (concat (spec_grid frames))) ! p = concat (spec_grid frames) ! (p mod 1600)"
    by (simp add: length_concat_spec_grid)
  moreover have "p < length (concat (replicate 4 (concat (spec_grid frames))))"
    using assms by (simp add: length_concat_replicate length_concat_spec_grid)
  ultimately show ?thesis by (simp add: pooled_feature_def)
qed

text \<open>
  Claim C1. When every instance holds nine stored frames of 720 ranges, the counter is 9
  and a tenth frame of 720 ranges arrives for every instance, the pooling step returns the
  flag \<open>True\<close> and one feature of width 6400 per instance. For the ten frames of an
  instance, each frame \<open>n\<close> is cut into 80 bins of 9 consecutive samples; row \<open>2n\<close> of a
  20 by 80 grid holds the minimum of each bin and row \<open>2n+1\<close> its mean; entry
  \<open>1600 k + 80 r + c\<close> of the feature, for each of the four copies \<open>k\<close>, is
  \<open>2 * (grid r c - 0) / (30 - 0) - 1\<close>. Nothing is clamped: the feature entry exceeds 1
  exactly when the grid entry exceeds 30, and is below -1 exactly when it is negative.
\<close>

theorem lidar_pooling_reduction:
  assumes "rows \<noteq> []" and "length hs = length rows"
    and "list_all (\<lambda>h. length h = 9 \<and> list_all (\<lambda>f. length f = 720) h) hs"
    and "list_all (\<lambda>r. length r = 720) rows"
  shows "lidar_pooling (Cube hs) (Matrix rows) 9 =
           Inr (Matrix (map (\<lambda>j. pooled_feature (hs ! j @ [rows ! j])) [0..<length rows]),
                True,
                Cube (map (\<lambda>j. tl (hs ! j) @ [rows ! j]) [0..<length rows]),
                9)
         \<and> (\<forall>j<length rows.
              length (pooled_feature (hs ! j @ [rows ! j])) = 6400
              \<and> length (spec_grid (hs ! j @ [rows ! j])) = 20
              \<and> (\<forall>n<10. \<forall>i<80.
                    length (take 9 (drop (9 * i) ((hs ! j @ [rows ! j]) ! n))) = 9
                    \<and> length (spec_grid (hs ! j @ [rows ! j]) ! (2 * n)) = 80
                    \<and> length (spec_grid (hs ! j @ [rows ! j]) ! (2 * n + 1)) = 80
                    \<and> spec_grid (hs ! j @ [rows ! j]) ! (2 * n) ! i
                        = min_list (take 9 (drop (9 * i) ((hs ! j @ [rows ! j]) ! n)))
                    \<and> spec_grid (hs ! j @ [rows ! j]) ! (2 * n + 1) ! i
                        = sum_list (take 9 (drop (9 * i) ((hs ! j @ [rows ! j]) ! n))) / 9)
              \<and> (\<forall>r<20. \<forall>c<80. \<forall>k<4.
                    pooled_feature (hs ! j @ [rows ! j]) ! (1600 * k + 80 * r + c)
                      = 2 * (spec_grid (hs ! j @ [rows ! j]) ! r ! c - 0) / (30 - 0) - 1
                    \<and> (1 < pooled_feature (hs ! j @ [rows ! j]) ! (1600 * k + 80 * r + c)
                          \<longleftrightarrow> 30 < spec_grid (hs ! j @ [rows ! j]) ! r ! c)
                    \<and> (pooled_feature (hs ! j @ [rows ! j]) ! (1600 * k + 80 * r + c) < - 1
                          \<longleftrightarrow> spec_grid (hs ! j @ [rows ! j]) ! r ! c < 0)))"
proof -
  have main: "lidar_pooling (Cube hs) (Matrix rows) 9 =
           Inr (Matrix (map (\<lambda>j. pooled_feature (hs ! j @ [rows ! j])) [0..<length rows]),
                True,
                Cube (map (\<lambda>j. tl (hs ! j) @ [rows ! j]) [0..<length rows]),
                9)"
    using lidar_pooling_full [OF assms] by (simp add: lidar_avg_map_spec)
  have per: "length (pooled_feature F) = 6400
              \<and> length (spec_grid F) = 20
              \<and> (\<forall>n<10. \<forall>i<80.
                    length (take 9 (drop (9 * i) (F ! n))) = 9
                    \<and> length (spec_grid F ! (2 * n)) = 80
                    \<and> length (spec_grid F ! (2 * n + 1)) = 80
                    \<and> spec_grid F ! (2 * n) ! i = min_list (take 9 (drop (9 * i) (F ! n)))
                    \<and> spec_grid F ! (2 * n + 1) ! i = sum_list (take 9 (drop (9 * i) (F ! n))) / 9)
              \<and> (\<forall>r<20. \<forall>c<80. \<forall>k<4.
                    pooled_feature F ! (1600 * k + 80 * r + c)
                      = 2 * (spec_grid F ! r ! c - 0) / (30 - 0) - 1
                    \<and> (1 < pooled_feature F ! (1600 * k + 80 * r + c) \<longleftrightarrow> 30 < spec_grid F ! r ! c)
                    \<and> (pooled_feature F ! (1600 * k + 80 * r + c) < - 1 \<longleftrightarrow> spec_grid F ! r ! c < 0))"
    if F: "length F = 10" "list_all (\<lambda>f. length f = 720) F" for F
  proof -
    have len: "length (F ! n) = 720" if "n < 10" for n
      using F that by (simp add: list_all_length)
    have bins: "length (take 9 (drop (9 * i) (F ! n))) = 9" if "n < 10" "i < 80" for n i
      using len [OF that(1)] that(2) by simp
    have rows80: "length (spec_grid F ! r) = 80" if "r < 20" for r
      using that by (simp add: spec_grid_def)
    have odd: "spec_grid F ! (2 * n + 1) ! i = sum_list (take 9 (drop (9 * i) (F ! n))) / 9"
      if "n < 10" "i < 80" for n i
      using spec_grid_odd [OF that, of F] bins [OF that]
      by (simp add: torch_mean_def bin_of_def)
    have even: "spec_grid F ! (2 * n) ! i = min_list (take 9 (drop (9 * i) (F ! n)))"
      if "n < 10" "i < 80" for n i
      using spec_grid_even [OF that, of F] by (simp add: bin_of_def)
    have flat_nth: "pooled_feature F ! (1600 * k + 80 * r + c)
                      = 2 * (spec_grid F ! r ! c - 0) / (30 - 0) - 1"
      if "r < 20" "c < 80" "k < 4" for r c k
    proof -
      have "80 * r + c < 1600" using that by simp
      then have m: "(1600 * k + 80 * r + c) mod 1600 = r * 80 + c"
        by (simp add: add.assoc mult.commute)
      have p: "1600 * k + 80 * r + c < 6400" using that by simp
      have "concat (spec_grid F) ! (r * 80 + c) = spec_grid F ! r ! c"
        using that by (intro nth_concat_uniform) (simp_all add: length_spec_grid spec_grid_rows)
      then show ?thesis using pooled_feature_nth [OF p, of F] m by simp
    qed
    show ?thesis
      using bins rows80 odd even flat_nth
      by (simp add: length_pooled_feature length_spec_grid) 
  qed
  have "length (hs ! j @ [rows ! j]) = 10 \<and> list_all (\<lambda>f. length f = 720) (hs ! j @ [rows ! j])"
    if "j < length rows" for j
  proof -
    have "hs ! j \<in> set hs" "rows ! j \<in> set rows" using assms(2) that by simp_all
    then show ?thesis using assms(3,4) by (auto simp: list_all_iff)
  qed
  then show ?thesis using main per by blast
qed

theorem lidar_pooling_reduction_witness:
  "[replicate 720 (31::real)] \<noteq> []
   \<and> length [replicate 9 (replicate 720 (31::real))] = length [replicate 720 (31::real)]
   \<and> list_all (\<lambda>h. length h = 9 \<and> list_all (\<lambda>f. length f = 720) h) [replicate 9 (replicate 720 (31::real))]
   \<and> list_all (\<lambda>r. length r = 720) [replicate 720 (31::real)]
   \<and> lidar_pooling (Cube [replicate 9 (replicate 720 31)]) (Matrix [replicate 720 31]) 9 =
         Inr (Matrix [pooled_feature (replicate 9 (replicate 720 31) @ [replicate 720 31])], True,
              Cube [tl (replicate 9 (replicate 720 31)) @ [replicate 720 31]], 9)
   \<and> length (pooled_feature (replicate 9 (replicate 720 31) @ [replicate 720 31])) = 6400"
proof -
  have h: "[replicate 720 (31::real)] \<noteq> []"
    "length [replicate 9 (replicate 720 (31::real))] = length [replicate 720 (31::real)]"
    "list_all (\<lambda>h. length h = 9 \<and> list_all (\<lambda>f. length f = 720) h) [replicate 9 (replicate 720 (31::real))]"
    "list_all (\<lambda>r. length r = 720) [replicate 720 (31::real)]"
    by (simp_all add: list_all_iff)
  show ?thesis
    using h lidar_pooling_reduction [OF h] by simp
qed

subsection \<open>Differential-drive solver\<close>

lemma drive_row_eq:
  "drive_row (vx, om) =
     [0, system_gain * ((vx - om * base_width / 2) / motor_scale) * joint_base,
      system_gain * ((vx + om * base_width / 2) / motor_scale) * joint_base, 0, 0, 0, 0]"
  by (simp add: drive_row_def Let_def numeral_eq_Suc)

text \<open>
  Claim C4. For a non-empty batch of commands \<open>(vx, om)\<close> the solver returns one row of
  seven joint efforts per command: slot 1 is \<open>gain * (v_left / nominal_velocity) * joint_base\<close>
  with \<open>v_left = vx - om * W / 2\<close>, slot 2 is the same with \<open>v_right = vx + om * W / 2\<close>, and
  slots 0, 3, 4, 5, 6 are zero. With the module constants, the command \<open>(0.5, -0.5)\<close> gives
  the left target 63.3465 and the right target 41.6535, that is 63.35 and 41.65 to two
  decimal places.
\<close>

theorem differential_drive_solver_targets:
  assumes "actions \<noteq> []"
  shows "differential_drive_solver actions =
           Inr (map (\<lambda>(vx, om).
                  [0, system_gain * ((vx - om * base_width / 2) / motor_scale) * joint_base,
                   system_gain * ((vx + om * base_width / 2) / motor_scale) * joint_base,
                   0, 0, 0, 0]) actions)
         \<and> differential_drive_solver [(0.5, -0.5)] = Inr [[0, 63.3465, 41.6535, 0, 0, 0, 0]]
         \<and> \<bar>63.3465 - 63.35\<bar> < (0.005::real) \<and> \<bar>41.6535 - 41.65\<bar> < (0.005::real)"
proof -
  have "map drive_row actions =
          map (\<lambda>(vx, om).
                  [0, system_gain * ((vx - om * base_width / 2) / motor_scale) * joint_base,
                   system_gain * ((vx + om * base_width / 2) / motor_scale) * joint_base,
                   0, 0, 0, 0]) actions"
    by (rule map_cong) (auto simp: drive_row_eq)
  then have general: "differential_drive_solver actions =
           Inr (map (\<lambda>(vx, om).
                  [0, system_gain * ((vx - om * base_width / 2) / motor_scale) * joint_base,
                   system_gain * ((vx + om * base_width / 2) / motor_scale) * joint_base,
                   0, 0, 0, 0]) actions)"
    using assms by (simp add: differential_drive_solver_def stack_def)
  have example: "differential_drive_solver [(0.5, -0.5)] = Inr [[0, 63.3465, 41.6535, 0, 0, 0, 0]]"
    by (simp add: differential_drive_solver_def stack_def drive_row_eq
        system_gain_def base_width_def motor_scale_def joint_base_def)
  show ?thesis using general example by simp
qed

theorem differential_drive_solver_targets_witness:
  "[(1, 0), (0, 1)] \<noteq> ([] :: (real \<times> real) list)
   \<and> differential_drive_solver [(1, 0), (0, 1)] =
       Inr [[0, 105, 105, 0, 0, 0, 0], [0, - 21.693, 21.693, 0, 0, 0, 0]]"
  using differential_drive_solver_targets [of "[(1, 0), (0, 1)]"]
  by (simp add: system_gain_def base_width_def motor_scale_def joint_base_def)

subsection \<open>Degenerate range input\<close>

text \<open>
  Claim C8. When the range input of a tick has at most one dimension (a scalar, or a
  one-dimensional tensor such as the empty tensor the preprocessor returns), the pooling
  step returns at once, whatever the history and the counter are: an empty feature
  tensor, the flag \<open>False\<close>, an empty history tensor and the counter 0. It raises nothing
  and no instance is processed.
\<close>

theorem lidar_pooling_degenerate:
  assumes "dim_tensor scan_tmp \<le> 1"
  shows "lidar_pooling history scan_tmp tns = Inr (Vector [], False, Vector [], 0)"
  using assms by (simp add: lidar_pooling_def)

theorem lidar_pooling_degenerate_witness:
  "dim_tensor (Vector []) \<le> 1
   \<and> lidar_pooling (Cube [[replicate 720 1]]) (Vector []) 1 = Inr (Vector [], False, Vector [], 0)
   \<and> dim_tensor (Scalar 3) \<le> 1
   \<and> lidar_pooling (Cube [[replicate 720 1]]) (Scalar 3) 1 = Inr (Vector [], False, Vector [], 0)"
  using lidar_pooling_degenerate [of "Vector []" "Cube [[replicate 720 1]]" 1]
        lidar_pooling_degenerate [of "Scalar 3" "Cube [[replicate 720 1]]" 1]
  by simp

subsection \<open>Warm-up of the pooling buffer\<close>









subsection \<open>Range-scan preprocessing\<close>

lemma index_select_empty: "idx \<noteq> [] \<Longrightarrow> index_select [] idx = Inl IndexError"
  by (cases idx) simp_all

lemma index_select_ok:
  "(\<And>j. j \<in> set idx \<Longrightarrow> 0 \<le> j \<and> j < int (length xs)) \<Longrightarrow>
   index_select xs idx = Inr (map (\<lambda>j. xs ! nat j) idx)"
proof (induction idx)
  case Nil
  then show ?case by simp
next
  case (Cons a idx)
  have "0 \<le> a \<and> a < int (length xs)" using Cons.prems by simp
  moreover have "index_select xs idx = Inr (map (\<lambda>j. xs ! nat j) idx)"
    using Cons by simp
  ultimately show ?case by (simp add: Let_def)
qed

lemma mask_select_data:
  "mask_select xs (map P xs) = Inr (filter P xs)"
proof -
  have "map fst (filter snd (zip xs (map P xs))) = filter P xs"
    by (induction xs) simp_all
  then show ?thesis by (simp add: mask_select_def)
qed

lemma mask_select_ranges:
  assumes "length rs = length ds"
  shows "\<exists>r. mask_select rs (map P ds) = Inr r \<and> length r = length (filter P ds) \<and> set r \<subseteq> set rs"
proof -
  have "length (map fst (filter snd (zip rs (map P ds)))) = length (filter P ds)"
    using assms by (induction rs ds rule: list_induct2) simp_all
  moreover have "set (map fst (filter snd (zip rs (map P ds)))) \<subseteq> set rs"
    by (auto dest: set_zip_leftD)
  ultimately show ?thesis using assms by (simp add: mask_select_def)
qed

lemma linspace_indices_bounds:
  assumes "0 < n" and "j \<in> set (map to_long (linspace 0 (real n - 1) 720))"
  shows "0 \<le> j \<and> j < int n"
proof -
  from assms(2) obtain i where i: "i < 720" "j = to_long ((real n - 1) * real i / 719)"
    by (auto simp: linspace_def)
  let ?x = "(real n - 1) * real i / 719"
  have x0: "0 \<le> ?x" using assms(1) by simp
  have "real i / 719 \<le> 1" using i(1) by simp
  then have "(real n - 1) * (real i / 719) \<le> (real n - 1) * 1"
    using assms(1) by (intro mult_left_mono) simp_all
  then have x1: "?x \<le> real n - 1" by simp
  have "j = \<lfloor>?x\<rfloor>" using i(2) x0 by (simp add: to_long_def)
  moreover have "0 \<le> \<lfloor>?x\<rfloor>" using x0 by simp
  moreover have "\<lfloor>?x\<rfloor> \<le> int n - 1"
  proof -
    have "?x \<le> of_int (int n - 1)" using x1 by simp
    then have "\<lfloor>?x\<rfloor> \<le> \<lfloor>of_int (int n - 1) :: real\<rfloor>" by (rule floor_mono)
    then show ?thesis by simp
  qed
  ultimately show ?thesis by simp
qed

lemma length_linspace: "length (linspace a b n) = n"
  by (simp add: linspace_def)

lemma process_key_ok:
  assumes "good_key frames"
  shows "\<exists>fd fr. process_key frames = Inr (fd, fr) \<and> length fd = 720 \<and> length fr = 720
           \<and> set fd \<subseteq> {p \<in> set (data (hd frames)). in_band p}
           \<and> set fr \<subseteq> set (distance (hd frames))"
proof -
  from assms obtain f rest where fr: "frames = f # rest"
    and len: "length (distance f) = length (data f)" and ne: "filter in_band (data f) \<noteq> []"
    by (auto simp: good_key_def split: list.splits)
  let ?mask = "map (\<lambda>(x, y, z). z \<ge> - 0.02 \<and> z \<le> 0.02) (data f)"
  have mask: "(\<lambda>(x, y, z). z \<ge> - 0.02 \<and> z \<le> 0.02) = in_band"
    by (auto simp: in_band_def fun_eq_iff)
  from mask_select_ranges [OF len, of in_band]
  obtain r where r: "mask_select (distance f) (map in_band (data f)) = Inr r"
    "length r = length (filter in_band (data f))" "set r \<subseteq> set (distance f)"
    by blast
  let ?d = "take 970 (filter in_band (data f))"
  let ?r = "take 970 r"
  let ?idx = "map to_long (linspace 0 (real (length ?d) - 1) 720)"
  have dpos: "0 < length ?d" using ne by simp
  have leq: "length ?r = length ?d" using r(2) by simp
  have b: "\<And>j. j \<in> set ?idx \<Longrightarrow> 0 \<le> j \<and> j < int (length ?d)"
    using linspace_indices_bounds [OF dpos] by blast
  have sd: "index_select ?d ?idx = Inr (map (\<lambda>j. ?d ! nat j) ?idx)"
    by (rule index_select_ok) (use b in blast)
  have sr: "index_select ?r ?idx = Inr (map (\<lambda>j. ?r ! nat j) ?idx)"
    by (rule index_select_ok) (use b leq in simp)
  have pk: "process_key frames = Inr (map (\<lambda>j. ?d ! nat j) ?idx, map (\<lambda>j. ?r ! nat j) ?idx)"
    unfolding process_key_def fr
    by (simp only: list.case Let_def mask mask_select_data r(1) sum.case sd sr)
  have subd: "set (map (\<lambda>j. ?d ! nat j) ?idx) \<subseteq> {p \<in> set (data f). in_band p}"
  proof
    fix p assume "p \<in> set (map (\<lambda>j. ?d ! nat j) ?idx)"
    then obtain j where j: "j \<in> set ?idx" "p = ?d ! nat j" by auto
    have "0 \<le> j \<and> j < int (length ?d)" using b [OF j(1)] .
    then have "nat j < length ?d" by linarith
    then have "p \<in> set ?d" using j(2) by (metis nth_mem)
    then have "p \<in> set (filter in_band (data f))" by (meson in_set_takeD)
    then show "p \<in> {p \<in> set (data f). in_band p}" by simp
  qed
  have subr: "set (map (\<lambda>j. ?r ! nat j) ?idx) \<subseteq> set (distance f)"
  proof
    fix p assume "p \<in> set (map (\<lambda>j. ?r ! nat j) ?idx)"
    then obtain j where j: "j \<in> set ?idx" "p = ?r ! nat j" by auto
    have "0 \<le> j \<and> j < int (length ?d)" using b [OF j(1)] .
    then have "nat j < length ?r" unfolding leq by linarith
    then have "p \<in> set ?r" using j(2) by (metis nth_mem)
    then have "p \<in> set r" by (meson in_set_takeD)
    then show "p \<in> set (distance f)" using r(3) by blast
  qed
  show ?thesis
    using pk subd subr fr by (simp add: length_linspace)
qed

lemma map_err_ex:
  "(\<And>x. x \<in> set xs \<Longrightarrow> \<exists>y. f x = Inr y \<and> Q y) \<Longrightarrow>
   \<exists>ys. map_err f xs = Inr ys \<and> length ys = length xs \<and> list_all Q ys"
proof (induction xs)
  case Nil
  then show ?case by simp
next
  case (Cons x xs)
  from Cons.prems obtain y where y: "f x = Inr y" "Q y" by auto
  from Cons obtain ys where "map_err f xs = Inr ys" "length ys = length xs" "list_all Q ys"
    by auto
  then show ?case using y by simp
qed

lemma raw_lidar_process_ok:
  assumes "lidar \<noteq> []" and "list_all good_key lidar"
  shows "\<exists>pts rs. raw_lidar_process lidar = Inr (Cube pts, Matrix rs)
           \<and> length pts = length lidar \<and> list_all (\<lambda>m. length m = 720) pts
           \<and> length rs = length lidar \<and> list_all (\<lambda>r. length r = 720) rs"
proof -
  have "\<exists>y. process_key x = Inr y \<and> (length (fst y) = 720 \<and> length (snd y) = 720)"
    if "x \<in> set lidar" for x
  proof -
    have "good_key x" using assms(2) that by (simp add: list_all_iff)
    from process_key_ok [OF this] show ?thesis by auto
  qed
  from map_err_ex [of lidar process_key "\<lambda>y. length (fst y) = 720 \<and> length (snd y) = 720", OF this]
  obtain ys where ys: "map_err process_key lidar = Inr ys" "length ys = length lidar"
    "list_all (\<lambda>y. length (fst y) = 720 \<and> length (snd y) = 720) ys"
    by blast
  have ne: "ys \<noteq> []" using ys(2) assms(1) by auto
  obtain first_key rest where l: "lidar = first_key # rest" using assms(1) by (cases lidar) auto
  then have "good_key first_key" using assms(2) by simp
  then obtain f0 others where f0: "first_key = f0 # others" "filter in_band (data f0) \<noteq> []"
    by (auto simp: good_key_def split: list.splits)
  then have d0: "data f0 \<noteq> []" by auto
  have "raw_lidar_process lidar =
          Inr (Cube (map (map (\<lambda>(x, y, z). [x, y, z])) (map fst ys)), Matrix (map snd ys))"
  proof -
    have ll: "lidar = (f0 # others) # rest" using l f0(1) by simp
    have ys': "map_err process_key ((f0 # others) # rest) = Inr ys" using ys(1) ll by simp
    show ?thesis
      unfolding ll raw_lidar_process_def using d0 ne
      by (simp add: ys' stack_def del: map_err.simps)
  qed
  moreover have "list_all (\<lambda>m. length m = 720) (map (map (\<lambda>(x, y, z). [x, y, z])) (map fst ys))"
    "list_all (\<lambda>r. length r = 720) (map snd ys)"
    using ys(3) by (simp_all add: list_all_iff)
  ultimately show ?thesis using ys(2) by simp
qed


text \<open>
  Claim C3, at a reading that is not empty but has no point inside the band. The
  preprocessor tests only whether the raw point cloud is empty. Here the filtered arrays
  are empty, the 720 indices are \<open>0, ..., 0, -1\<close>, and indexing the empty filtered array
  raises.
\<close>

theorem raw_lidar_process_band_empty:
  "raw_lidar_process [[\<lparr>data = [(0, 0, 1)], distance = [1]\<rparr>]] = Inl IndexError"
proof -
  have "map to_long (linspace 0 (real (length ([] :: (real \<times> real \<times> real) list)) - 1) 720) \<noteq> []"
    by (simp add: linspace_def)
  then have "index_select ([] :: (real \<times> real \<times> real) list)
               (map to_long (linspace 0 (real (length ([] :: (real \<times> real \<times> real) list)) - 1) 720))
             = Inl IndexError"
    by (rule index_select_empty)
  then have "process_key [\<lparr>data = [(0, 0, 1)], distance = [1]\<rparr>] = Inl IndexError"
    by (simp add: process_key_def mask_select_def Let_def)
  then show ?thesis by (simp add: raw_lidar_process_def)
qed

subsection \<open>Heading angle and goal projection\<close>

lemma atan2_range: "- pi < atan2 y x \<and> atan2 y x \<le> pi"
proof -
  have b: "- (pi / 2) < arctan (y / x)" "arctan (y / x) < pi / 2"
    by (rule arctan_lbound, rule arctan_ubound)
  consider "0 < x" | "x < 0" "0 \<le> y" | "x < 0" "y < 0" | "x = 0" by linarith
  then show ?thesis
  proof cases
    case 1
    then show ?thesis using b by (simp add: atan2_def)
  next
    case 2
    then have "y / x \<le> 0" by (simp add: divide_nonneg_neg)
    then have "arctan (y / x) \<le> 0" by (simp add: arctan_le_zero_iff)
    then show ?thesis using 2 b by (simp add: atan2_def)
  next
    case 3
    then have "0 < y / x" by (simp add: divide_neg_neg)
    then have "0 < arctan (y / x)" by (simp add: zero_less_arctan_iff)
    then show ?thesis using 3 b by (simp add: atan2_def)
  next
    case 4
    then have "atan2 y x = pi / 2 \<or> atan2 y x = - (pi / 2) \<or> atan2 y x = 0"
      by (simp add: atan2_def)
    then show ?thesis using pi_gt_zero by linarith
  qed
qed

lemma wrap_inside:
  assumes "- pi < a" "a < pi"
  shows "remainder (a + pi) (2 * pi) - pi = a"
proof -
  have "0 \<le> (a + pi) / (2 * pi)" "(a + pi) / (2 * pi) < 1"
    using assms pi_gt_zero by simp_all
  then have "\<lfloor>(a + pi) / (2 * pi)\<rfloor> = 0" by linarith
  then show ?thesis by (simp add: remainder_def)
qed

lemma wrap_pi: "remainder (2 * pi) (2 * pi) = 0"
  by (simp add: remainder_def)

lemma quaternion_angle_eq:
  "quaternion_angle (w, x, y, z) =
     (if atan2 (2 * (x * y - w * z)) (1 - 2 * (y\<^sup>2 + z\<^sup>2)) = pi then - pi
      else atan2 (2 * (x * y - w * z)) (1 - 2 * (y\<^sup>2 + z\<^sup>2)))"
proof (cases "atan2 (2 * (x * y - w * z)) (1 - 2 * (y\<^sup>2 + z\<^sup>2)) = pi")
  case True
  then show ?thesis by (simp add: quaternion_angle_def Let_def wrap_pi)
next
  case False
  then have "atan2 (2 * (x * y - w * z)) (1 - 2 * (y\<^sup>2 + z\<^sup>2)) < pi"
    using atan2_range [of "2 * (x * y - w * z)" "1 - 2 * (y\<^sup>2 + z\<^sup>2)"] by simp
  then show ?thesis
    using False atan2_range [of "2 * (x * y - w * z)" "1 - 2 * (y\<^sup>2 + z\<^sup>2)"]
    by (simp add: quaternion_angle_def Let_def wrap_inside)
qed

lemma wrap_cos_sin:
  "cos (remainder (a + pi) (2 * pi) - pi) = cos a \<and> sin (remainder (a + pi) (2 * pi) - pi) = sin a"
proof -
  define k where "k = \<lfloor>(a + pi) / (2 * pi)\<rfloor>"
  have eq: "remainder (a + pi) (2 * pi) - pi = a + 2 * pi * of_int (- k)"
    by (simp add: remainder_def k_def algebra_simps)
  show ?thesis unfolding eq
    by (metis cos_add cos_int_2pin sin_int_2pin sin_add mult.commute mult.left_commute
        mult_1_right mult_zero_right add_0_right diff_zero mult.assoc)
qed

lemma atan2_unit:
  assumes "x\<^sup>2 + y\<^sup>2 = 1"
  shows "cos (atan2 y x) = x \<and> sin (atan2 y x) = y"
proof -
  have root: "sqrt (1 + (y / x)\<^sup>2) = 1 / \<bar>x\<bar>" if "x \<noteq> 0"
  proof -
    have "1 + (y / x)\<^sup>2 = (x\<^sup>2 + y\<^sup>2) / x\<^sup>2"
      using that by (simp add: power_divide field_simps)
    then have "1 + (y / x)\<^sup>2 = 1 / x\<^sup>2" using assms by simp
    then show ?thesis by (simp add: real_sqrt_divide)
  qed
  consider "0 < x" | "x < 0" "0 \<le> y" | "x < 0" "y < 0" | "x = 0" by linarith
  then show ?thesis
  proof cases
    case 1
    then show ?thesis using root by (simp add: atan2_def cos_arctan sin_arctan)
  next
    case 2
    then show ?thesis using root by (simp add: atan2_def cos_arctan sin_arctan)
  next
    case 3
    then show ?thesis using root by (simp add: atan2_def cos_arctan sin_arctan)
  next
    case 4
    then have "y\<^sup>2 = 1" using assms by simp
    then have "y = 1 \<or> y = - 1" by (simp add: power2_eq_1_iff)
    then show ?thesis using 4 by (auto simp: atan2_def)
  qed
qed

lemma yaw_rotation:
  "goal_rotate (quaternion_angle (cos (psi / 2), 0, 0, sin (psi / 2))) (x, y) =
     (x * cos psi + y * sin psi, - x * sin psi + y * cos psi)"
proof -
  let ?r21 = "2 * (0 * 0 - cos (psi / 2) * sin (psi / 2))"
  let ?r11 = "1 - 2 * (0\<^sup>2 + (sin (psi / 2))\<^sup>2)"
  have r21: "?r21 = - sin psi"
    using sin_double [of "psi / 2"] by simp
  have r11: "?r11 = cos psi"
    using cos_double_sin [of "psi / 2"] by simp
  have unit: "(cos psi)\<^sup>2 + (- sin psi)\<^sup>2 = 1" by simp
  have a: "cos (atan2 (- sin psi) (cos psi)) = cos psi" "sin (atan2 (- sin psi) (cos psi)) = - sin psi"
    using atan2_unit [OF unit] by simp_all
  have "quaternion_angle (cos (psi / 2), 0, 0, sin (psi / 2)) =
          remainder (atan2 ?r21 ?r11 + pi) (2 * pi) - pi"
    by (simp add: quaternion_angle_def Let_def)
  then have q: "quaternion_angle (cos (psi / 2), 0, 0, sin (psi / 2)) =
          remainder (atan2 (- sin psi) (cos psi) + pi) (2 * pi) - pi"
    by (simp only: r21 r11)
  have "cos (quaternion_angle (cos (psi / 2), 0, 0, sin (psi / 2))) = cos psi"
    "sin (quaternion_angle (cos (psi / 2), 0, 0, sin (psi / 2))) = - sin psi"
    unfolding q using wrap_cos_sin [of "atan2 (- sin psi) (cos psi)"] a by simp_all
  then show ?thesis by (simp add: goal_rotate_def Let_def)
qed

lemma goal_rescale_half: "goal_rescale s = (fst s / 2, snd s / 2)"
  by (simp add: goal_rescale_def Let_def field_simps)

lemma abs_le_magnitude: "\<bar>fst g\<bar> \<le> magnitude g" "\<bar>snd g\<bar> \<le> magnitude g"
proof -
  have "sqrt (fst g * fst g) \<le> sqrt (fst g * fst g + snd g * snd g)"
    "sqrt (snd g * snd g) \<le> sqrt (fst g * fst g + snd g * snd g)"
    by (rule real_sqrt_le_mono, simp)+
  then show "\<bar>fst g\<bar> \<le> magnitude g" "\<bar>snd g\<bar> \<le> magnitude g"
    by (simp_all add: magnitude_def power2_eq_square [symmetric])
qed

lemma lookahead_cut_over:
  assumes "0 < L" and "L < magnitude g"
  shows "lookahead_cut L g = (fst g * (L / magnitude g), snd g * (L / magnitude g))"
    and "magnitude (lookahead_cut L g) = L"
    and "0 < L / magnitude g"
proof -
  let ?m = "magnitude g"
  have mpos: "0 < ?m" using assms by linarith
  show cut: "lookahead_cut L g = (fst g * (L / ?m), snd g * (L / ?m))"
    using assms by (simp add: lookahead_cut_def Let_def)
  show "0 < L / ?m" using assms mpos by simp
  have sq: "fst g * fst g + snd g * snd g = ?m * ?m"
  proof -
    have "0 \<le> fst g * fst g + snd g * snd g" by simp
    then show ?thesis by (simp add: magnitude_def)
  qed
  have "fst g * (L / ?m) * (fst g * (L / ?m)) + snd g * (L / ?m) * (snd g * (L / ?m))
          = (fst g * fst g + snd g * snd g) * ((L / ?m) * (L / ?m))"
    by (simp add: algebra_simps)
  also have "\<dots> = (?m * ?m) * ((L / ?m) * (L / ?m))" by (simp only: sq)
  also have "\<dots> = L * L" using mpos by simp
  finally have "magnitude (fst g * (L / ?m), snd g * (L / ?m)) = sqrt (L * L)"
    by (simp add: magnitude_def)
  then show "magnitude (lookahead_cut L g) = L"
    using assms(1) cut by (simp add: power2_eq_square [symmetric])
qed

lemma lookahead_cut_under: "magnitude g \<le> L \<Longrightarrow> lookahead_cut L g = g"
  by (simp add: lookahead_cut_def)

lemma lookahead_cut_bound: "0 < L \<Longrightarrow> magnitude (lookahead_cut L g) \<le> L"
  using lookahead_cut_over(2) [of L g] lookahead_cut_under [of g L]
  by (cases "L < magnitude g") simp_all

lemma goal_example:
  "lookahead_cut 2 (goal_rotate (quaternion_angle (1, 0, 0, 0)) (- 5 - 0, - 2 - 0))
     = (- 5 * (2 / sqrt 29), - 2 * (2 / sqrt 29))"
  "magnitude (- 5 - 0, - 2 - (0::real)) = sqrt 29"
proof -
  have q: "quaternion_angle (1, 0, 0, 0) = 0"
    by (simp add: quaternion_angle_eq atan2_def)
  have m: "magnitude (- 5, - 2) = sqrt 29" by (simp add: magnitude_def)
  have "(2::real) = sqrt 4" by simp
  also have "\<dots> < sqrt 29" by (rule real_sqrt_less_mono) simp
  finally have lt: "2 < magnitude (- 5, - 2)" using m by simp
  show "lookahead_cut 2 (goal_rotate (quaternion_angle (1, 0, 0, 0)) (- 5 - 0, - 2 - 0))
     = (- 5 * (2 / sqrt 29), - 2 * (2 / sqrt 29))"
    using lookahead_cut_over(1) [OF _ lt] m by (simp add: q goal_rotate_def)
  show "magnitude (- 5 - 0, - 2 - (0::real)) = sqrt 29" using m by simp
qed

lemma subgoal_of_rows:
  assumes "length root_quat_w = length goal" and "length root_pos_w = length goal"
  shows "subgoal_of root_quat_w root_pos_w =
           Inr (map (\<lambda>i. goal_rescale (lookahead_cut 2
                        (goal_rotate (quaternion_angle (root_quat_w ! i))
                           (fst (goal ! i) - fst (root_pos_w ! i),
                            snd (goal ! i) - fst (snd (root_pos_w ! i))))))
                  [0..<length goal])"
proof -
  obtain q0 q1 where q: "root_quat_w = [q0, q1]"
    using assms(1) by (auto simp: goal_def length_Suc_conv numeral_2_eq_2)
  obtain p0 p1 where p: "root_pos_w = [p0, p1]"
    using assms(2) by (auto simp: goal_def length_Suc_conv numeral_2_eq_2)
  have up: "[0..<length goal] = [0, 1]"
    by (simp add: goal_def numeral_2_eq_2)
  show ?thesis
    unfolding up
    by (simp add: subgoal_of_def q p goal_def broadcast_sub_def quaternion_to_angle_def
        rotate_rows_def subgoal_get_def stack_def Let_def numeral_2_eq_2 split: prod.splits)
qed

text \<open>
  Claim C9, as amended. For every root quaternion \<open>(w, x, y, z)\<close> the angle used by the
  goal projection is \<open>atan2(2 (x y - w z), 1 - 2 (y\<^sup>2 + z\<^sup>2))\<close> wrapped into the half-open
  interval \<open>[-\<pi>, \<pi>)\<close>: it equals the arctangent whenever that is below \<open>\<pi>\<close>, and is
  \<open>-\<pi>\<close> when the arctangent is \<open>\<pi>\<close>. The batch function applies this to every row.
\<close>

theorem quaternion_angle_wrapped:
  "quaternion_angle (w, x, y, z) =
     (if atan2 (2 * (x * y - w * z)) (1 - 2 * (y\<^sup>2 + z\<^sup>2)) = pi then - pi
      else atan2 (2 * (x * y - w * z)) (1 - 2 * (y\<^sup>2 + z\<^sup>2)))
   \<and> - pi \<le> quaternion_angle (w, x, y, z) \<and> quaternion_angle (w, x, y, z) < pi
   \<and> quaternion_to_angle quat = map quaternion_angle quat"
proof -
  let ?a = "atan2 (2 * (x * y - w * z)) (1 - 2 * (y\<^sup>2 + z\<^sup>2))"
  have r: "- pi < ?a" "?a \<le> pi" using atan2_range by simp_all
  have e: "quaternion_angle (w, x, y, z) = (if ?a = pi then - pi else ?a)"
    by (rule quaternion_angle_eq)
  have "- pi \<le> (if ?a = pi then - pi else ?a)" "(if ?a = pi then - pi else ?a) < pi"
    using r pi_gt_zero by (simp_all split: if_splits)
  then show ?thesis using e by (simp add: quaternion_to_angle_def)
qed

theorem quaternion_angle_wrapped_witness:
  "quaternion_angle (1, 0, 0, 0) = 0 \<and> quaternion_to_angle [(1, 0, 0, 0)] = [0]"
  using quaternion_angle_wrapped [of 1 0 0 0 "[(1, 0, 0, 0)]"]
  by (simp add: atan2_def)

theorem quaternion_angle_half_turn:
  "atan2 (2 * (0 * 0 - 0 * 1)) (1 - 2 * (0\<^sup>2 + 1\<^sup>2)) = pi
   \<and> quaternion_angle (0, 0, 0, 1) = - pi
   \<and> \<not> (- pi < quaternion_angle (0, 0, 0, 1) \<and> quaternion_angle (0, 0, 0, 1) \<le> pi)"
  by (simp add: quaternion_angle_eq atan2_def)

text \<open>
  Claim C5. With one root quaternion and one root position for each of the two goals,
  the goal part of the observation returns one pair per instance. For instance \<open>i\<close> the
  relative goal is the goal minus the planar robot position; it is rotated by the angle of
  the root quaternion; when its magnitude exceeds the lookahead 2 it is multiplied by the
  positive factor \<open>2 / magnitude\<close>, which keeps its direction and makes its magnitude 2, and
  otherwise it is kept, so the magnitude never exceeds 2; each component is then mapped by
  \<open>2 (x - (-2)) / (2 - (-2)) - 1\<close> and lies in \<open>[-1, 1]\<close>. For a robot whose quaternion is a
  rotation by the heading \<open>psi\<close> about the vertical axis, the rotation applied is the
  rotation by \<open>-psi\<close>. For the goal \<open>(-5, -2)\<close> and a robot at the origin with the identity
  quaternion, the vector before the last mapping has magnitude exactly 2 and the result is
  \<open>(-5 / sqrt 29, -2 / sqrt 29)\<close>.
\<close>

theorem goal_projection:
  assumes "length root_quat_w = length goal" and "length root_pos_w = length goal"
  shows "(\<exists>sub. subgoal_of root_quat_w root_pos_w = Inr sub \<and> length sub = length goal \<and>
           (\<forall>i<length goal.
              (let relative = (fst (goal ! i) - fst (root_pos_w ! i),
                               snd (goal ! i) - fst (snd (root_pos_w ! i)));
                   body = goal_rotate (quaternion_angle (root_quat_w ! i)) relative;
                   cut = lookahead_cut 2 body
               in sub ! i = (2 * (fst cut - (- 2)) / (2 - (- 2)) - 1,
                             2 * (snd cut - (- 2)) / (2 - (- 2)) - 1)
                  \<and> magnitude cut \<le> 2
                  \<and> (2 < magnitude body \<longrightarrow>
                        magnitude cut = 2 \<and> 0 < 2 / magnitude body
                        \<and> cut = (fst body * (2 / magnitude body), snd body * (2 / magnitude body)))
                  \<and> (magnitude body \<le> 2 \<longrightarrow> cut = body)
                  \<and> - 1 \<le> fst (sub ! i) \<and> fst (sub ! i) \<le> 1
                  \<and> - 1 \<le> snd (sub ! i) \<and> snd (sub ! i) \<le> 1)))
         \<and> (\<forall>psi x y. goal_rotate (quaternion_angle (cos (psi / 2), 0, 0, sin (psi / 2))) (x, y)
                          = (x * cos psi + y * sin psi, - x * sin psi + y * cos psi))
         \<and> goal ! 0 = (- 5, - 2)
         \<and> magnitude (lookahead_cut 2
               (goal_rotate (quaternion_angle (1, 0, 0, 0)) (- 5 - 0, - 2 - 0))) = 2
         \<and> goal_rescale (lookahead_cut 2
               (goal_rotate (quaternion_angle (1, 0, 0, 0)) (- 5 - 0, - 2 - 0)))
             = (- 5 / sqrt 29, - 2 / sqrt 29)"
proof -
  let ?f = "\<lambda>i. goal_rescale (lookahead_cut 2
                        (goal_rotate (quaternion_angle (root_quat_w ! i))
                           (fst (goal ! i) - fst (root_pos_w ! i),
                            snd (goal ! i) - fst (snd (root_pos_w ! i)))))"
  have rows: "subgoal_of root_quat_w root_pos_w = Inr (map ?f [0..<length goal])"
    by (rule subgoal_of_rows [OF assms])
  have per: "goal_rescale (lookahead_cut 2 b)
               = (2 * (fst (lookahead_cut 2 b) - (- 2)) / (2 - (- 2)) - 1,
                  2 * (snd (lookahead_cut 2 b) - (- 2)) / (2 - (- 2)) - 1)
             \<and> magnitude (lookahead_cut 2 b) \<le> 2
             \<and> (2 < magnitude b \<longrightarrow>
                   magnitude (lookahead_cut 2 b) = 2 \<and> 0 < 2 / magnitude b
                   \<and> lookahead_cut 2 b = (fst b * (2 / magnitude b), snd b * (2 / magnitude b)))
             \<and> (magnitude b \<le> 2 \<longrightarrow> lookahead_cut 2 b = b)
             \<and> - 1 \<le> fst (goal_rescale (lookahead_cut 2 b))
             \<and> fst (goal_rescale (lookahead_cut 2 b)) \<le> 1
             \<and> - 1 \<le> snd (goal_rescale (lookahead_cut 2 b))
             \<and> snd (goal_rescale (lookahead_cut 2 b)) \<le> 1" for b
  proof -
    let ?c = "lookahead_cut 2 b"
    have m: "magnitude ?c \<le> 2" by (rule lookahead_cut_bound) simp
    have "\<bar>fst ?c\<bar> \<le> 2" "\<bar>snd ?c\<bar> \<le> 2"
      using abs_le_magnitude [of ?c] m by linarith+
    then have box: "- 1 \<le> fst (goal_rescale ?c)" "fst (goal_rescale ?c) \<le> 1"
      "- 1 \<le> snd (goal_rescale ?c)" "snd (goal_rescale ?c) \<le> 1"
      by (simp_all add: goal_rescale_half abs_le_iff)
    have over: "2 < magnitude b \<longrightarrow>
                   magnitude ?c = 2 \<and> 0 < 2 / magnitude b
                   \<and> ?c = (fst b * (2 / magnitude b), snd b * (2 / magnitude b))"
      using lookahead_cut_over [of 2 b] by simp
    have under: "magnitude b \<le> 2 \<longrightarrow> ?c = b"
      by (simp add: lookahead_cut_under)
    have "goal_rescale ?c = (2 * (fst ?c - (- 2)) / (2 - (- 2)) - 1,
                  2 * (snd ?c - (- 2)) / (2 - (- 2)) - 1)"
      by (simp add: goal_rescale_def Let_def)
    then show ?thesis using m box over under by blast
  qed
  have first: "\<exists>sub. subgoal_of root_quat_w root_pos_w = Inr sub \<and> length sub = length goal \<and>
           (\<forall>i<length goal.
              (let relative = (fst (goal ! i) - fst (root_pos_w ! i),
                               snd (goal ! i) - fst (snd (root_pos_w ! i)));
                   body = goal_rotate (quaternion_angle (root_quat_w ! i)) relative;
                   cut = lookahead_cut 2 body
               in sub ! i = (2 * (fst cut - (- 2)) / (2 - (- 2)) - 1,
                             2 * (snd cut - (- 2)) / (2 - (- 2)) - 1)
                  \<and> magnitude cut \<le> 2
                  \<and> (2 < magnitude body \<longrightarrow>
                        magnitude cut = 2 \<and> 0 < 2 / magnitude body
                        \<and> cut = (fst body * (2 / magnitude body), snd body * (2 / magnitude body)))
                  \<and> (magnitude body \<le> 2 \<longrightarrow> cut = body)
                  \<and> - 1 \<le> fst (sub ! i) \<and> fst (sub ! i) \<le> 1
                  \<and> - 1 \<le> snd (sub ! i) \<and> snd (sub ! i) \<le> 1))"
  proof (intro exI [of _ "map ?f [0..<length goal]"] conjI allI impI)
    show "subgoal_of root_quat_w root_pos_w = Inr (map ?f [0..<length goal])" by (rule rows)
    show "length (map ?f [0..<length goal]) = length goal" by simp
    fix i assume i: "i < length goal"
    have nth: "map ?f [0..<length goal] ! i = ?f i" using i by simp
    show "let relative = (fst (goal ! i) - fst (root_pos_w ! i),
                               snd (goal ! i) - fst (snd (root_pos_w ! i)));
                   body = goal_rotate (quaternion_angle (root_quat_w ! i)) relative;
                   cut = lookahead_cut 2 body
               in map ?f [0..<length goal] ! i = (2 * (fst cut - (- 2)) / (2 - (- 2)) - 1,
                             2 * (snd cut - (- 2)) / (2 - (- 2)) - 1)
                  \<and> magnitude cut \<le> 2
                  \<and> (2 < magnitude body \<longrightarrow>
                        magnitude cut = 2 \<and> 0 < 2 / magnitude body
                        \<and> cut = (fst body * (2 / magnitude body), snd body * (2 / magnitude body)))
                  \<and> (magnitude body \<le> 2 \<longrightarrow> cut = body)
                  \<and> - 1 \<le> fst (map ?f [0..<length goal] ! i) \<and> fst (map ?f [0..<length goal] ! i) \<le> 1
                  \<and> - 1 \<le> snd (map ?f [0..<length goal] ! i) \<and> snd (map ?f [0..<length goal] ! i) \<le> 1"
      unfolding Let_def nth by (rule per)
  qed
  have ex1: "lookahead_cut 2 (goal_rotate (quaternion_angle (1, 0, 0, 0)) (- 5 - 0, - 2 - 0))
     = (- 5 * (2 / sqrt 29), - 2 * (2 / sqrt 29))"
    by (rule goal_example(1))
  have lt: "2 < magnitude (goal_rotate (quaternion_angle (1, 0, 0, 0)) (- 5 - 0, - 2 - 0))"
  proof -
    have "(2::real) = sqrt 4" by simp
    also have "\<dots> < sqrt 29" by (rule real_sqrt_less_mono) simp
    finally show ?thesis
      by (simp add: quaternion_angle_eq atan2_def goal_rotate_def magnitude_def)
  qed
  have ex2: "magnitude (lookahead_cut 2
               (goal_rotate (quaternion_angle (1, 0, 0, 0)) (- 5 - 0, - 2 - 0))) = 2"
    using lookahead_cut_over(2) [OF _ lt] by simp
  have ex3: "goal_rescale (lookahead_cut 2
               (goal_rotate (quaternion_angle (1, 0, 0, 0)) (- 5 - 0, - 2 - 0)))
             = (- 5 / sqrt 29, - 2 / sqrt 29)"
    unfolding ex1 by (simp add: goal_rescale_half)
  have g0: "goal ! 0 = (- 5, - 2)" by (simp add: goal_def)
  show ?thesis using first yaw_rotation ex2 ex3 g0 by blast
qed

theorem goal_projection_witness:
  "length [(1, 0, 0, 0), (1, 0, 0, 0) :: quat] = length goal
   \<and> length [(0, 0, 0), (0, 0, 0) :: real \<times> real \<times> real] = length goal
   \<and> (\<exists>sub. subgoal_of [(1, 0, 0, 0), (1, 0, 0, 0)] [(0, 0, 0), (0, 0, 0)] = Inr sub
            \<and> length sub = length goal)"
proof -
  have h: "length [(1, 0, 0, 0), (1, 0, 0, 0) :: quat] = length goal"
    "length [(0, 0, 0), (0, 0, 0) :: real \<times> real \<times> real] = length goal"
    by (simp_all add: goal_def)
  show ?thesis using h goal_projection [OF h] by blast
qed

subsection \<open>Observation assembly and reset\<close>


















lemma fold_update_frame:
  "length (fold (\<lambda>(j, r) ys. ys[j := r]) ps xs) = length xs
   \<and> (i \<notin> fst ` set ps \<longrightarrow> fold (\<lambda>(j, r) ys. ys[j := r]) ps xs ! i = xs ! i)"
  by (induction ps arbitrary: xs) (auto split: prod.splits)

lemma scatter_frame:
  assumes "scatter xs ids rows = Inr ys"
  shows "length ys = length xs \<and> (\<forall>i. i \<notin> set ids \<longrightarrow> ys ! i = xs ! i)"
proof -
  from assms have ys: "ys = fold (\<lambda>(i, r) ys. ys[i := r]) (zip ids rows) xs"
    by (simp add: scatter_def split: if_splits)
  have "i \<notin> fst ` set (zip ids rows)" if "i \<notin> set ids" for i
    using that by (auto dest: set_zip_leftD)
  then show ?thesis unfolding ys using fold_update_frame [of "zip ids rows" xs] by blast
qed

lemma reset_idx_other_rows:
  assumes "reset_idx super_reset_idx write_to_sim left_dof_idx default_joint_pos default_joint_vel
             noise env_ids (env, sim) = Inr (env', sim')"
  shows "length (joint_pos env') = length (joint_pos env)
         \<and> length (joint_vel env') = length (joint_vel env)
         \<and> (\<forall>i. i \<notin> set (case env_ids of None \<Rightarrow> [0..<num_envs env] | Some ids \<Rightarrow> ids) \<longrightarrow>
                joint_pos env' ! i = joint_pos env ! i \<and> joint_vel env' ! i = joint_vel env ! i)"
proof -
  let ?ids = "case env_ids of None \<Rightarrow> [0..<num_envs env] | Some ids \<Rightarrow> ids"
  from assms obtain new_jp new_jv jp jv where
    sp: "scatter (joint_pos env) ?ids new_jp = Inr jp"
    and sv: "scatter (joint_vel env) ?ids new_jv = Inr jv"
    and e: "env' = env\<lparr>joint_pos := jp, joint_vel := jv\<rparr>"
    by (auto simp: reset_idx_def Let_def split: sum.splits)
  show ?thesis
    using scatter_frame [OF sp] scatter_frame [OF sv] by (simp add: e)
qed

text \<open>
  Claim C7, as amended. A reset of any subset of the instances leaves the scan history
  tensor and the pooling counter, a single integer shared by all instances, unchanged for
  every instance, reset or not: no scan history is cleared and the counter is not zeroed.
\<close>

theorem reset_idx_keeps_scan_history:
  assumes "reset_idx super_reset_idx write_to_sim left_dof_idx default_joint_pos default_joint_vel
             noise env_ids (env, sim) = Inr (env', sim')"
  shows "lidar_history_data env' = lidar_history_data env \<and> pooling_tns env' = pooling_tns env"
  using assms by (auto simp: reset_idx_def Let_def split: sum.splits)

theorem reset_idx_first_instance:
  "reset_idx (\<lambda>ids s. s) (\<lambda>ids jp jv s. s) [1] [[0, 0, 0], [0, 0, 0]] [[0, 0, 0], [0, 0, 0]]
     [[1 / 4]] (Some [0])
     (\<lparr>lidar_history_data = Cube [[replicate 720 1], [replicate 720 2]], pooling_tns = 1,
       num_envs = 2, joint_pos = [[9, 9, 9], [9, 9, 9]], joint_vel = [[8, 8, 8], [8, 8, 8]]\<rparr>, ())
   = Inr (\<lparr>lidar_history_data = Cube [[replicate 720 1], [replicate 720 2]], pooling_tns = 1,
           num_envs = 2, joint_pos = [[0, 1 / 4, 0], [9, 9, 9]],
           joint_vel = [[0, 0, 0], [8, 8, 8]]\<rparr>, ())
   \<and> pooling_tns \<lparr>lidar_history_data = Cube [[replicate 720 1], [replicate 720 2]],
           pooling_tns = 1, num_envs = 2, joint_pos = [[0, 1 / 4, 0], [9, 9, 9]],
           joint_vel = [[0, 0, 0], [8, 8, 8]]\<rparr> \<noteq> 0
   \<and> lidar_history_data \<lparr>lidar_history_data = Cube [[replicate 720 1], [replicate 720 2]],
           pooling_tns = 1, num_envs = 2, joint_pos = [[0, 1 / 4, 0], [9, 9, 9]],
           joint_vel = [[0, 0, 0], [8, 8, 8]]\<rparr> \<noteq> Vector []"
  by (simp add: reset_idx_def gather_def scatter_def add_noise_def Let_def)

theorem reset_idx_keeps_scan_history_witness:
  "reset_idx (\<lambda>ids s. s) (\<lambda>ids jp jv s. s) [1] [[0, 0, 0], [0, 0, 0]] [[0, 0, 0], [0, 0, 0]]
     [[1 / 4], [1 / 2]] None
     (\<lparr>lidar_history_data = Cube [[replicate 720 1], [replicate 720 2]], pooling_tns = 1,
       num_envs = 2, joint_pos = [[9, 9, 9], [9, 9, 9]], joint_vel = [[8, 8, 8], [8, 8, 8]]\<rparr>, ())
   = Inr (\<lparr>lidar_history_data = Cube [[replicate 720 1], [replicate 720 2]], pooling_tns = 1,
           num_envs = 2, joint_pos = [[0, 1 / 4, 0], [0, 1 / 2, 0]],
           joint_vel = [[0, 0, 0], [0, 0, 0]]\<rparr>, ())
   \<and> lidar_history_data \<lparr>lidar_history_data = Cube [[replicate 720 1], [replicate 720 2]],
           pooling_tns = 1, num_envs = 2, joint_pos = [[0, 1 / 4, 0], [0, 1 / 2, 0]],
           joint_vel = [[0, 0, 0], [0, 0, 0]]\<rparr>
       = Cube [[replicate 720 1], [replicate 720 2]]"
proof -
  have r: "reset_idx (\<lambda>ids s. s) (\<lambda>ids jp jv s. s) [1] [[0, 0, 0], [0, 0, 0]] [[0, 0, 0], [0, 0, 0]]
     [[1 / 4], [1 / 2]] None
     (\<lparr>lidar_history_data = Cube [[replicate 720 1], [replicate 720 2]], pooling_tns = 1,
       num_envs = 2, joint_pos = [[9, 9, 9], [9, 9, 9]], joint_vel = [[8, 8, 8], [8, 8, 8]]\<rparr>, ())
   = Inr (\<lparr>lidar_history_data = Cube [[replicate 720 1], [replicate 720 2]], pooling_tns = 1,
           num_envs = 2, joint_pos = [[0, 1 / 4, 0], [0, 1 / 2, 0]],
           joint_vel = [[0, 0, 0], [0, 0, 0]]\<rparr>, ())"
    by (simp add: reset_idx_def gather_def scatter_def add_noise_def Let_def numeral_2_eq_2)
  show ?thesis using r reset_idx_keeps_scan_history [OF r] by simp
qed

subsection \<open>The first tick of a fresh environment\<close>

lemma constructor_state_rows:
  assumes "2 \<le> length rows" and "list_all (\<lambda>r. length r = 720) rows"
  shows "lidar_pooling (Matrix [[]]) (Matrix rows) c = Inl IndexError"
proof -
  from assms(1) obtain r0 r1 rest where rows: "rows = r0 # r1 # rest"
    by (cases rows; cases "tl rows") auto
  have up: "[0..<length rows] = 0 # Suc 0 # [Suc (Suc 0)..<length rows]"
    unfolding rows by (simp add: upt_conv_Cons del: upt_Suc)
  have s0: "stack_current (Matrix [[]]) (Matrix rows) 0 = Inr [r0]"
    using assms(2) by (simp add: stack_current_def reshape_1_720_def rows)
  have s1: "stack_current (Matrix [[]]) (Matrix rows) (Suc 0) = Inl IndexError"
    by (simp add: stack_current_def rows)
  have "map_err (stack_current (Matrix [[]]) (Matrix rows)) [0..<length rows] = Inl IndexError"
    unfolding up by (simp add: s0 s1)
  then show ?thesis by (simp add: lidar_pooling_def)
qed

text \<open>
  Claim C2, at the state the constructor builds. \<open>__init__\<close> stores
  \<open>torch.Tensor([[]])\<close>, whose first dimension has size 1, so the test
  \<open>_lidar_history_data.size(0) == 0\<close> fails on the first tick; with two instances the
  concatenation branch then reads \<open>_lidar_history_data[1]\<close>, which does not exist, and
  the first observation of a fresh environment that receives a valid reading raises. From
  the empty one-dimensional tensor, lemmas \<open>warm_tick\<close> and \<open>warm_run\<close> give the warm-up.
\<close>

theorem constructor_state_first_tick_fails:
  "lidar_pooling (lidar_history_data (init_env 2 [] [])) (Matrix [replicate 720 1, replicate 720 1])
       (pooling_tns (init_env 2 [] [])) = Inl IndexError
   \<and> get_observations (init_env 2 [] [])
         [[\<lparr>data = [(1, 0, 0)], distance = [1]\<rparr>], [\<lparr>data = [(2, 0, 0)], distance = [2]\<rparr>]]
         [(1, 0, 0, 0), (1, 0, 0, 0)] [(0, 0, 0), (0, 0, 0)] = Inl IndexError"
proof -
  let ?lidar = "[[\<lparr>data = [(1, 0, 0)], distance = [1]\<rparr>], [\<lparr>data = [(2, 0, 0)], distance = [2]\<rparr>]]"
  have a: "lidar_pooling (Matrix [[]]) (Matrix [replicate 720 1, replicate 720 1]) 0 = Inl IndexError"
    by (rule constructor_state_rows) simp_all
  have "?lidar \<noteq> []" "list_all good_key ?lidar"
    by (simp_all add: good_key_def in_band_def)
  from raw_lidar_process_ok [OF this]
  obtain pts rs where raw: "raw_lidar_process ?lidar = Inr (Cube pts, Matrix rs)"
    and rs: "length rs = 2" "list_all (\<lambda>r. length r = 720) rs"
    by auto
  have "lidar_pooling (Matrix [[]]) (Matrix rs) 0 = Inl IndexError"
    using rs by (intro constructor_state_rows) simp_all
  then have b: "get_observations (init_env 2 [] []) ?lidar
         [(1, 0, 0, 0), (1, 0, 0, 0)] [(0, 0, 0), (0, 0, 0)] = Inl IndexError"
    by (simp add: get_observations_def raw init_env_def)
  show ?thesis using a b by (simp add: init_env_def)
qed

end
